theory Spec2Isabelle
  imports Complex_Main
begin

section \<open>Python values used by the scripts\<close>

text \<open>
  The three scripts are Python programs.  A Python \<open>str\<close> is modelled as a
  \<open>string\<close> whose characters stand for code points below 256, \<open>bytes\<close> as
  a list of naturals below 256, a dictionary as an association list in
  insertion order, and an exception as a value of \<open>exn\<close> returned on the
  left of a sum.
\<close>

type_synonym bytes = "nat list"

datatype exn =
    OSError
  | ValueError
  | OverflowError
  | ConnectionError
  | Timeout
  | HTTPError nat
  | RequestException
  | JSONDecodeError
  | AttributeError
  | TypeError
  | KeyError
  | SystemExit nat

text \<open>Truthiness of an optional string: \<open>None\<close> and \<open>""\<close> are false.\<close>

fun truthy :: "string option \<Rightarrow> bool" where
  "truthy None = False"
| "truthy (Some s) = (s \<noteq> [])"

text \<open>\<open>a or b\<close> for an optional string \<open>a\<close> and a string \<open>b\<close>.\<close>

fun py_or :: "string option \<Rightarrow> string \<Rightarrow> string" where
  "py_or None b = b"
| "py_or (Some a) b = (if a \<noteq> [] then a else b)"

subsection \<open>\<open>str.isspace\<close>, \<open>str.strip\<close>, \<open>str.split\<close>, \<open>str.rstrip\<close>\<close>

definition isspace :: "char \<Rightarrow> bool" where
  "isspace c =
     (let n = (of_char c :: nat)
      in (9 \<le> n \<and> n \<le> 13) \<or> (28 \<le> n \<and> n \<le> 32) \<or> n = 133 \<or> n = 160)"

definition strip :: "string \<Rightarrow> string" where
  "strip s = rev (dropWhile isspace (rev (dropWhile isspace s)))"

text \<open>
  \<open>s.split()\<close> with no argument: maximal runs of non-space characters.
  \<open>cur\<close> is the word being read.
\<close>

fun split_from :: "string \<Rightarrow> string \<Rightarrow> string list" where
  "split_from cur [] = (if cur = [] then [] else [cur])"
| "split_from cur (c # cs) =
     (if isspace c then (if cur = [] then split_from [] cs else cur # split_from [] cs)
      else split_from (cur @ [c]) cs)"

definition split :: "string \<Rightarrow> string list" where
  "split s = split_from [] s"

text \<open>\<open>s.rstrip("/")\<close> removes every trailing slash.\<close>

definition rstrip_slash :: "string \<Rightarrow> string" where
  "rstrip_slash s = rev (dropWhile (\<lambda>c. c = CHR ''/'') (rev s))"

subsection \<open>\<open>str(n)\<close> for a natural number\<close>

definition digit_char :: "nat \<Rightarrow> char" where
  "digit_char d = ''0123456789'' ! d"

fun str_nat :: "nat \<Rightarrow> string" where
  "str_nat n = (if n < 10 then [digit_char n] else str_nat (n div 10) @ [digit_char (n mod 10)])"

declare str_nat.simps [simp del]

subsection \<open>\<open>int(s, 16)\<close>\<close>

text \<open>
  \<open>int(s, 16)\<close> strips surrounding white space, takes an optional sign, an
  optional \<open>0x\<close> or \<open>0X\<close> prefix (which one underscore may follow), and then
  hexadecimal digits in which single underscores may separate digits.
  Anything else raises \<open>ValueError\<close>.
\<close>

definition hexval :: "char \<Rightarrow> nat option" where
  "hexval c =
     (let n = (of_char c :: nat)
      in if 48 \<le> n \<and> n \<le> 57 then Some (n - 48)
         else if 65 \<le> n \<and> n \<le> 70 then Some (n - 55)
         else if 97 \<le> n \<and> n \<le> 102 then Some (n - 87)
         else None)"

text \<open>\<open>us\<close> records that the previous character was an underscore.\<close>

fun digits16 :: "bool \<Rightarrow> nat \<Rightarrow> string \<Rightarrow> nat option" where
  "digits16 us acc [] = (if us then None else Some acc)"
| "digits16 us acc (c # cs) =
     (if c = CHR ''_'' then (if us then None else digits16 True acc cs)
      else case hexval c of
             None \<Rightarrow> None
           | Some d \<Rightarrow> digits16 False (16 * acc + d) cs)"

fun take_sign :: "string \<Rightarrow> bool \<times> string" where
  "take_sign [] = (False, [])"
| "take_sign (c # cs) =
     (if c = CHR ''+'' then (False, cs)
      else if c = CHR ''-'' then (True, cs)
      else (False, c # cs))"

fun take_prefix16 :: "string \<Rightarrow> string" where
  "take_prefix16 (a # b # cs) =
     (if a = CHR ''0'' \<and> (b = CHR ''x'' \<or> b = CHR ''X'')
      then (case cs of u # r \<Rightarrow> if u = CHR ''_'' then r else cs | [] \<Rightarrow> cs)
      else a # b # cs)"
| "take_prefix16 s = s"

definition int16 :: "string \<Rightarrow> exn + int" where
  "int16 s =
     (let (neg, t) = take_sign (strip s);
          ds = take_prefix16 t
      in case ds of
           [] \<Rightarrow> Inl ValueError
         | c # _ \<Rightarrow>
             if c = CHR ''_'' then Inl ValueError
             else (case digits16 False 0 ds of
                     None \<Rightarrow> Inl ValueError
                   | Some v \<Rightarrow> Inr (if neg then - int v else int v)))"

subsection \<open>\<open>int.to_bytes(4, byteorder="little")\<close> and \<open>socket.inet_ntoa\<close>\<close>

definition to_bytes4_little :: "int \<Rightarrow> exn + bytes" where
  "to_bytes4_little g =
     (if g < 0 \<or> 2 ^ 32 \<le> g then Inl OverflowError
      else Inr [nat g mod 256, nat g div 256 mod 256,
                nat g div 65536 mod 256, nat g div 16777216 mod 256])"

definition dotted :: "nat \<Rightarrow> nat \<Rightarrow> nat \<Rightarrow> nat \<Rightarrow> string" where
  "dotted a b c d = str_nat a @ ''.'' @ str_nat b @ ''.'' @ str_nat c @ ''.'' @ str_nat d"

fun inet_ntoa :: "bytes \<Rightarrow> exn + string" where
  "inet_ntoa [a, b, c, d] = Inr (dotted a b c d)"
| "inet_ntoa _ = Inl OSError"

section \<open>Endpoint resolution (\<open>scripts/generate_voicevox_voices.py\<close>)\<close>

text \<open>
  What the resolver reads from its surroundings: the process environment,
  whether \<open>socket.gethostbyname\<close> succeeds for a name, and the lines of
  \<open>/proc/net/route\<close> as \<open>readlines()\<close> returns them (\<open>None\<close> when opening or
  reading the file raises \<open>OSError\<close>).
\<close>

record environment =
  environ :: "string \<Rightarrow> string option"
  gethostbyname_ok :: "string \<Rightarrow> bool"
  proc_net_route :: "string list option"

text \<open>The loop of \<open>_get_default_gateway_linux\<close> over the lines after the header.\<close>

fun scan_route :: "string list \<Rightarrow> exn + string option" where
  "scan_route [] = Inr None"
| "scan_route (line # rest) =
     (let fields = split (strip line)
      in if length fields < 3 then scan_route rest
         else let destination = fields ! 1; gateway = fields ! 2
              in if destination \<noteq> ''00000000'' then scan_route rest
                 else (case int16 gateway of
                         Inl e \<Rightarrow> Inl e
                       | Inr g \<Rightarrow>
                           (case to_bytes4_little g of
                              Inl e \<Rightarrow> Inl e
                            | Inr bs \<Rightarrow>
                                (case inet_ntoa bs of
                                   Inl e \<Rightarrow> Inl e
                                 | Inr ip \<Rightarrow> Inr (Some ip)))))"

text \<open>\<open>except OSError: return None\<close>; every other exception propagates.\<close>

definition get_default_gateway_linux :: "environment \<Rightarrow> exn + string option" where
  "get_default_gateway_linux env =
     (case proc_net_route env of
        None \<Rightarrow> Inr None
      | Some ls \<Rightarrow>
          (case scan_route (drop 1 ls) of
             Inl e \<Rightarrow> if e = OSError then Inr None else Inl e
           | Inr r \<Rightarrow> Inr r))"

definition resolve_host_or_none :: "environment \<Rightarrow> string \<Rightarrow> string option" where
  "resolve_host_or_none env host = (if gethostbyname_ok env host then Some host else None)"

definition default_voicevox_host :: "environment \<Rightarrow> exn + string" where
  "default_voicevox_host env =
     (let env_host = environ env ''VOICEVOX_HOST''
      in if truthy env_host then Inr (the env_host)
         else if truthy (resolve_host_or_none env ''host.docker.internal'')
              then Inr ''host.docker.internal''
         else (case get_default_gateway_linux env of
                 Inl e \<Rightarrow> Inl e
               | Inr gw \<Rightarrow> if truthy gw then Inr (the gw) else Inr ''127.0.0.1''))"

text \<open>
  The module-level constants \<open>DEFAULT_VOICEVOX_HOST\<close>, \<open>DEFAULT_VOICEVOX_PORT\<close>
  and \<open>DEFAULT_VOICEVOX_URL\<close>, evaluated in that order when the script
  starts; an exception of the first ends the script.
\<close>

definition DEFAULT_VOICEVOX_PORT :: "environment \<Rightarrow> string" where
  "DEFAULT_VOICEVOX_PORT env = py_or (environ env ''VOICEVOX_PORT'') ''50021''"

definition DEFAULT_VOICEVOX_URL :: "environment \<Rightarrow> exn + string" where
  "DEFAULT_VOICEVOX_URL env =
     (case default_voicevox_host env of
        Inl e \<Rightarrow> Inl e
      | Inr host \<Rightarrow>
          Inr (py_or (environ env ''VOICEVOX_URL'')
                 (''http://'' @ host @ '':'' @ DEFAULT_VOICEVOX_PORT env)))"

text \<open>
  \<open>args.url\<close> of \<open>generate_voicevox_voices.py\<close>: the \<open>--url\<close> argument when
  given, the default otherwise.
\<close>

definition voicevox_url :: "environment \<Rightarrow> string option \<Rightarrow> exn + string" where
  "voicevox_url env cli_url =
     (case DEFAULT_VOICEVOX_URL env of
        Inl e \<Rightarrow> Inl e
      | Inr d \<Rightarrow> Inr (case cli_url of Some u \<Rightarrow> u | None \<Rightarrow> d))"

section \<open>Endpoint of \<open>scripts/generate_quote_voices.py\<close>\<close>

definition VOICEVOX_URL_DEFAULT :: "environment \<Rightarrow> string" where
  "VOICEVOX_URL_DEFAULT env = py_or (environ env ''VOICEVOX_URL'') ''http://localhost:50021''"

text \<open>\<open>url = args.url.rstrip("/")\<close>.\<close>

definition quote_url :: "environment \<Rightarrow> string option \<Rightarrow> string" where
  "quote_url env cli_url =
     rstrip_slash (case cli_url of Some u \<Rightarrow> u | None \<Rightarrow> VOICEVOX_URL_DEFAULT env)"

subsection \<open>Shapes of routing-table lines\<close>





definition tab :: string where
  "tab = [CHR 0x09]"

definition route_header :: string where
  "route_header = ''Iface'' @ tab @ ''Destination'' @ tab @ ''Gateway'' @ tab @ ''Flags''"

definition route_local :: string where
  "route_local = ''eth0'' @ tab @ ''000011AC'' @ tab @ ''00000000'' @ tab @ ''0001''"

definition route_default :: string where
  "route_default = ''eth0'' @ tab @ ''00000000'' @ tab @ ''0100007F'' @ tab @ ''0003''"

definition route_broken :: string where
  "route_broken = ''eth0'' @ tab @ ''00000000'' @ tab @ ''zz'' @ tab @ ''0003''"

definition bare_env :: "string list option \<Rightarrow> environment" where
  "bare_env route =
     \<lparr>environ = (\<lambda>_. None), gethostbyname_ok = (\<lambda>_. False), proc_net_route = route\<rparr>"

definition host_port_vars :: "string \<Rightarrow> string option" where
  "host_port_vars k =
     (if k = ''VOICEVOX_HOST'' then Some ''10.0.0.5''
      else if k = ''VOICEVOX_PORT'' then Some ''50121'' else None)"

definition url_vars :: "string \<Rightarrow> string option" where
  "url_vars k = (if k = ''VOICEVOX_URL'' then Some ''http://svc:9'' else None)"

definition override_env :: "(string \<Rightarrow> string option) \<Rightarrow> environment" where
  "override_env vars =
     \<lparr>environ = vars, gethostbyname_ok = (\<lambda>_. True),
      proc_net_route = Some [route_header, route_default]\<rparr>"

section \<open>The speech service, the disk and the process state\<close>

datatype json =
    JNull
  | JBool bool
  | JNum real
  | JStr string
  | JArr "json list"
  | JObj "(string \<times> json) list"

datatype verb = GET | POST

datatype pval = PStr string | PInt int

text \<open>
  A call of \<open>requests.get\<close> or \<open>requests.post\<close>: the URL, the \<open>params\<close>,
  the explicit \<open>headers\<close>, the value given as \<open>json=\<close> or serialised into
  \<open>data=\<close>, and the \<open>timeout\<close> argument (\<open>None\<close> when the call gives none).
\<close>

record request =
  meth :: verb
  target :: string
  params :: "(string \<times> pval) list"
  headers :: "(string \<times> string) list"
  payload :: "json option"
  timeout :: "nat option"

text \<open>
  A response: its status, its body as \<open>r.content\<close> returns it, and the value
  \<open>r.json()\<close> returns (\<open>None\<close> when the body is not JSON and \<open>r.json()\<close>
  raises).
\<close>

record response =
  status_code :: nat
  content :: bytes
  json_value :: "json option"

datatype reply = Raises exn | Returns response

text \<open>
  The service answers a request knowing the requests sent before it.  A file is
  named by its directory and its name; \<open>can_write\<close> tells whether opening
  it for writing succeeds.
\<close>

type_synonym path = "string \<times> string"

datatype file_content =
    Audio bytes
  | Manifest "(string \<times> string list) list"

record host =
  http :: "request list \<Rightarrow> request \<Rightarrow> reply"
  can_mkdir :: "string \<Rightarrow> bool"
  can_write :: "path \<Rightarrow> bool"

text \<open>The lines the scripts print, one constructor for each \<open>print\<close> call.\<close>

datatype message =
    Note_remote_access
  | Voicevox_banner string
  | Output_banner string
  | Err_could_not_connect
  | Err_url string
  | Err_please_ensure
  | Err_hint
  | Err_details exn
  | Err_healthcheck_http
  | Err_failed_to_generate string exn
  | Generated path nat string
  | Done_generated nat
  | Quote_banner string
  | Version bytes
  | Warn_version_check exn
  | Generated_quote string nat
  | Err_failed string nat exn
  | Done
  | Generated_update string

datatype printed_line = Stdout message | Stderr message

record state =
  files :: "path \<Rightarrow> file_content option"
  sent :: "request list"
  printed :: "printed_line list"

subsection \<open>Actions: state passing with exceptions\<close>

type_synonym 'a action = "state \<Rightarrow> (exn + 'a) \<times> state"

definition ret :: "'a \<Rightarrow> 'a action" where
  "ret x = (\<lambda>st. (Inr x, st))"

definition raise :: "exn \<Rightarrow> 'a action" where
  "raise e = (\<lambda>st. (Inl e, st))"

definition and_then :: "'a action \<Rightarrow> ('a \<Rightarrow> 'b action) \<Rightarrow> 'b action" where
  "and_then m f = (\<lambda>st. case m st of (Inl e, st') \<Rightarrow> (Inl e, st') | (Inr x, st') \<Rightarrow> f x st')"

text \<open>\<open>try: m except ...: handler\<close>; the handler re-raises what it does not catch.\<close>

definition try_except :: "'a action \<Rightarrow> (exn \<Rightarrow> 'a action) \<Rightarrow> 'a action" where
  "try_except m handler =
     (\<lambda>st. case m st of (Inl e, st') \<Rightarrow> handler e st' | (Inr x, st') \<Rightarrow> (Inr x, st'))"

definition say :: "printed_line \<Rightarrow> unit action" where
  "say line = (\<lambda>st. (Inr (), st\<lparr>printed := printed st @ [line]\<rparr>))"

definition send :: "host \<Rightarrow> request \<Rightarrow> response action" where
  "send h rq =
     (\<lambda>st. let st' = st\<lparr>sent := sent st @ [rq]\<rparr>
           in case http h (sent st) rq of
                Raises e \<Rightarrow> (Inl e, st')
              | Returns r \<Rightarrow> (Inr r, st'))"

definition mkdir :: "host \<Rightarrow> string \<Rightarrow> unit action" where
  "mkdir h dir = (if can_mkdir h dir then ret () else raise OSError)"

definition write_file :: "host \<Rightarrow> path \<Rightarrow> file_content \<Rightarrow> unit action" where
  "write_file h p c =
     (\<lambda>st. if can_write h p then (Inr (), st\<lparr>files := (files st)(p \<mapsto> c)\<rparr>)
           else (Inl OSError, st))"

text \<open>The exit status of the process: \<open>sys.exit(n)\<close> gives \<open>n\<close>, an uncaught exception 1.\<close>

fun exit_status :: "exn + 'a \<Rightarrow> nat" where
  "exit_status (Inr _) = 0"
| "exit_status (Inl (SystemExit n)) = n"
| "exit_status (Inl _) = 1"

subsection \<open>\<open>raise_for_status\<close> and \<open>r.json()\<close>\<close>

text \<open>\<open>raise_for_status\<close> raises for the client and server error statuses.\<close>

definition is_error_status :: "nat \<Rightarrow> bool" where
  "is_error_status s = (400 \<le> s \<and> s < 600)"

definition raise_for_status :: "response \<Rightarrow> unit action" where
  "raise_for_status r =
     (if is_error_status (status_code r) then raise (HTTPError (status_code r)) else ret ())"

definition json_of :: "response \<Rightarrow> json action" where
  "json_of r = (case json_value r of None \<Rightarrow> raise JSONDecodeError | Some j \<Rightarrow> ret j)"

text \<open>\<open>except (ConnectionError, Timeout, HTTPError)\<close>.\<close>

fun request_failed :: "exn \<Rightarrow> bool" where
  "request_failed ConnectionError = True"
| "request_failed Timeout = True"
| "request_failed (HTTPError _) = True"
| "request_failed _ = False"

subsection \<open>Dictionaries\<close>

text \<open>\<open>d[k] = v\<close>: an existing key keeps its place, a new key goes last.\<close>

fun dict_set :: "'k \<Rightarrow> 'v \<Rightarrow> ('k \<times> 'v) list \<Rightarrow> ('k \<times> 'v) list" where
  "dict_set k v [] = [(k, v)]"
| "dict_set k v ((k', v') # d) = (if k' = k then (k, v) # d else (k', v') # dict_set k v d)"

text \<open>\<open>d.update(t)\<close>.\<close>

fun dict_update :: "('k \<times> 'v) list \<Rightarrow> ('k \<times> 'v) list \<Rightarrow> ('k \<times> 'v) list" where
  "dict_update d [] = d"
| "dict_update d ((k, v) # t) = dict_update (dict_set k v d) t"

section \<open>The requests of \<open>scripts/generate_voicevox_voices.py\<close> and \<open>scripts/generate_quote_voices.py\<close>\<close>

definition SPEAKER_ID :: int where
  "SPEAKER_ID = 3"

definition speakers_request :: "string \<Rightarrow> request" where
  "speakers_request url =
     \<lparr>meth = GET, target = url @ ''/speakers'', params = [], headers = [], payload = None,
      timeout = Some 10\<rparr>"

definition version_request :: "string \<Rightarrow> request" where
  "version_request url =
     \<lparr>meth = GET, target = url @ ''/version'', params = [], headers = [], payload = None,
      timeout = Some 10\<rparr>"

definition audio_query_request :: "string \<Rightarrow> string \<Rightarrow> request" where
  "audio_query_request url text =
     \<lparr>meth = POST, target = url @ ''/audio_query'',
      params = [(''text'', PStr text), (''speaker'', PInt SPEAKER_ID)], headers = [],
      payload = None, timeout = Some 30\<rparr>"

definition synthesis_request :: "string \<Rightarrow> json \<Rightarrow> request" where
  "synthesis_request url query =
     \<lparr>meth = POST, target = url @ ''/synthesis'', params = [(''speaker'', PInt SPEAKER_ID)],
      headers = [], payload = Some query, timeout = Some 60\<rparr>"

definition check_voicevox :: "host \<Rightarrow> string \<Rightarrow> unit action" where
  "check_voicevox h url = and_then (send h (speakers_request url)) raise_for_status"

text \<open>\<open>audio_query\<close> and \<open>synthesis\<close> are the same in both scripts.\<close>

definition audio_query :: "host \<Rightarrow> string \<Rightarrow> string \<Rightarrow> json action" where
  "audio_query h url text =
     and_then (send h (audio_query_request url text))
       (\<lambda>r. and_then (raise_for_status r) (\<lambda>_. json_of r))"

definition synthesis :: "host \<Rightarrow> string \<Rightarrow> json \<Rightarrow> bytes action" where
  "synthesis h url query =
     and_then (send h (synthesis_request url query))
       (\<lambda>r. and_then (raise_for_status r) (\<lambda>_. ret (content r)))"

section \<open>\<open>main\<close> of \<open>scripts/generate_voicevox_voices.py\<close>\<close>

text \<open>The body of the loop over \<open>LINES\<close>, for one \<open>(filename, text)\<close>.\<close>

definition generate_line :: "host \<Rightarrow> string \<Rightarrow> string \<Rightarrow> string \<times> string \<Rightarrow> unit action" where
  "generate_line h url output_dir entry =
     (case entry of (filename, text) \<Rightarrow>
        and_then
          (try_except
             (and_then (audio_query h url text) (\<lambda>query. synthesis h url query))
             (\<lambda>e. if request_failed e
                  then and_then (say (Stderr (Err_failed_to_generate filename e)))
                         (\<lambda>_. raise (SystemExit 4))
                  else raise e))
          (\<lambda>wav. and_then (write_file h (output_dir, filename) (Audio wav))
                   (\<lambda>_. say (Stdout (Generated (output_dir, filename) (length wav) text)))))"

fun generate_lines ::
  "host \<Rightarrow> string \<Rightarrow> string \<Rightarrow> (string \<times> string) list \<Rightarrow> nat \<Rightarrow> nat action" where
  "generate_lines h url output_dir [] generated = ret generated"
| "generate_lines h url output_dir (entry # rest) generated =
     and_then (generate_line h url output_dir entry)
       (\<lambda>_. generate_lines h url output_dir rest (generated + 1))"

text \<open>The health check with its two \<open>except\<close> clauses.\<close>

definition healthcheck :: "host \<Rightarrow> string \<Rightarrow> unit action" where
  "healthcheck h url =
     try_except (check_voicevox h url)
       (\<lambda>e. if e = ConnectionError \<or> e = Timeout
            then and_then (say (Stderr Err_could_not_connect))
                   (\<lambda>_. and_then (say (Stderr (Err_url url)))
                   (\<lambda>_. and_then (say (Stderr Err_please_ensure))
                   (\<lambda>_. and_then (say (Stderr Err_hint))
                   (\<lambda>_. and_then (say (Stderr (Err_details e)))
                   (\<lambda>_. raise (SystemExit 2))))))
            else case e of
                   HTTPError _ \<Rightarrow>
                     and_then (say (Stderr Err_healthcheck_http))
                       (\<lambda>_. and_then (say (Stderr (Err_details e)))
                       (\<lambda>_. raise (SystemExit 3)))
                 | _ \<Rightarrow> raise e)"

text \<open>
  \<open>main\<close>, for the table \<open>LINES\<close>, the endpoint \<open>args.url\<close> and the directory
  \<open>args.out\<close>.  The table is an argument: the script never looks inside the
  text of a line, it hands it to the service, so what follows holds for the
  table of the source and for any other.
\<close>

definition main_voicevox ::
  "host \<Rightarrow> (string \<times> string) list \<Rightarrow> string \<Rightarrow> string \<Rightarrow> unit action" where
  "main_voicevox h LINES url output_dir =
     and_then (mkdir h output_dir)
       (\<lambda>_. and_then (say (Stderr Note_remote_access))
       (\<lambda>_. and_then (say (Stdout (Voicevox_banner url)))
       (\<lambda>_. and_then (say (Stdout (Output_banner output_dir)))
       (\<lambda>_. and_then (healthcheck h url)
       (\<lambda>_. and_then (generate_lines h url output_dir LINES 0)
       (\<lambda>generated. say (Stdout (Done_generated generated))))))))"

text \<open>
  The whole script: the module-level endpoint resolution, then \<open>main\<close> with
  the command-line arguments (\<open>None\<close> for an argument not given).
\<close>

definition DEFAULT_OUTPUT_DIR :: string where
  "DEFAULT_OUTPUT_DIR = ''public/sounds/voice''"

definition generate_voicevox_voices ::
  "environment \<Rightarrow> host \<Rightarrow> (string \<times> string) list \<Rightarrow> string option \<Rightarrow> string option
     \<Rightarrow> unit action" where
  "generate_voicevox_voices env h LINES cli_url cli_out =
     (case voicevox_url env cli_url of
        Inl e \<Rightarrow> raise e
      | Inr url \<Rightarrow>
          main_voicevox h LINES url
            (case cli_out of Some out \<Rightarrow> out | None \<Rightarrow> DEFAULT_OUTPUT_DIR))"

section \<open>\<open>main\<close> of \<open>scripts/generate_quote_voices.py\<close>\<close>

definition VOICE_PARAMS :: "(string \<times> (string \<times> json) list) list" where
  "VOICE_PARAMS =
     [(''PLAYER_WIN_LOW'', [(''speedScale'', JNum 1.2), (''pitchScale'', JNum 0.1)]),
      (''PLAYER_WIN_HIGH'',
         [(''intonationScale'', JNum 0.5), (''speedScale'', JNum 1.1), (''pitchScale'', JNum 0.0)]),
      (''PLAYER_WIN_GENERIC'', [(''speedScale'', JNum 1.3), (''intonationScale'', JNum 1.5)])]"

text \<open>
  \<open>if tuning: query.update(tuning)\<close>: nothing for \<open>None\<close> or an empty
  dictionary; a query that is not a dictionary has no \<open>update\<close>.
\<close>

definition apply_tuning :: "(string \<times> json) list option \<Rightarrow> json \<Rightarrow> json action" where
  "apply_tuning tuning query =
     (case tuning of
        None \<Rightarrow> ret query
      | Some t \<Rightarrow>
          if t = [] then ret query
          else (case query of
                  JObj d \<Rightarrow> ret (JObj (dict_update d t))
                | _ \<Rightarrow> raise AttributeError))"

text \<open>\<open>manifest[category].append(filename)\<close>.\<close>

definition manifest_append ::
  "(string \<times> string list) list \<Rightarrow> string \<Rightarrow> string \<Rightarrow> (string \<times> string list) list action" where
  "manifest_append manifest category filename =
     (case map_of manifest category of
        None \<Rightarrow> raise KeyError
      | Some names \<Rightarrow> ret (dict_set category (names @ [filename]) manifest))"

definition quote_filename :: "string \<Rightarrow> nat \<Rightarrow> string" where
  "quote_filename category i = category @ ''_'' @ str_nat i @ ''.wav''"

text \<open>The body of the inner loop, for line \<open>i\<close> of a category.\<close>

definition generate_quote ::
  "host \<Rightarrow> (string \<times> (string \<times> json) list) list \<Rightarrow> string \<Rightarrow> string \<Rightarrow> string \<Rightarrow> nat \<Rightarrow> string
     \<Rightarrow> (string \<times> string list) list \<Rightarrow> (string \<times> string list) list action" where
  "generate_quote h voice_params url out_dir category i line manifest =
     (let filename = quote_filename category i
      in try_except
           (and_then (audio_query h url line)
              (\<lambda>query. and_then (apply_tuning (map_of voice_params category) query)
              (\<lambda>query. and_then (synthesis h url query)
              (\<lambda>wav. and_then (write_file h (out_dir, filename) (Audio wav))
              (\<lambda>_. and_then (manifest_append manifest category filename)
              (\<lambda>manifest. and_then (say (Stdout (Generated_quote filename (length wav))))
              (\<lambda>_. ret manifest)))))))
           (\<lambda>e. if request_failed e
                then and_then (say (Stdout (Err_failed category i e))) (\<lambda>_. raise e)
                else raise e))"

fun generate_category ::
  "host \<Rightarrow> (string \<times> (string \<times> json) list) list \<Rightarrow> string \<Rightarrow> string \<Rightarrow> string \<Rightarrow> nat
     \<Rightarrow> string list \<Rightarrow> (string \<times> string list) list \<Rightarrow> (string \<times> string list) list action" where
  "generate_category h voice_params url out_dir category i [] manifest = ret manifest"
| "generate_category h voice_params url out_dir category i (line # rest) manifest =
     and_then (generate_quote h voice_params url out_dir category i line manifest)
       (\<lambda>manifest. generate_category h voice_params url out_dir category (i + 1) rest manifest)"

text \<open>
  The loop over \<open>QUOTES.items()\<close>; \<open>manifest[category] = []\<close> opens each
  category.  \<open>QUOTES\<close> is an argument, as \<open>LINES\<close> is above; being a
  dictionary, its categories are distinct.
\<close>

fun generate_quotes ::
  "host \<Rightarrow> (string \<times> (string \<times> json) list) list \<Rightarrow> string \<Rightarrow> string
     \<Rightarrow> (string \<times> string list) list \<Rightarrow> (string \<times> string list) list
     \<Rightarrow> (string \<times> string list) list action" where
  "generate_quotes h voice_params url out_dir [] manifest = ret manifest"
| "generate_quotes h voice_params url out_dir ((category, lines) # rest) manifest =
     and_then
       (generate_category h voice_params url out_dir category 0 lines
          (dict_set category [] manifest))
       (\<lambda>manifest. generate_quotes h voice_params url out_dir rest manifest)"

text \<open>
  The version check: \<open>except Exception\<close> catches everything but \<open>SystemExit\<close>
  and prints a warning.
\<close>

definition version_check :: "host \<Rightarrow> string \<Rightarrow> unit action" where
  "version_check h url =
     try_except
       (and_then (send h (version_request url))
          (\<lambda>r. and_then (raise_for_status r) (\<lambda>_. say (Stdout (Version (content r))))))
       (\<lambda>e. case e of
               SystemExit _ \<Rightarrow> raise e
             | _ \<Rightarrow> say (Stdout (Warn_version_check e)))"

definition main_quote ::
  "host \<Rightarrow> (string \<times> (string \<times> json) list) list \<Rightarrow> (string \<times> string list) list \<Rightarrow> string \<Rightarrow> string
     \<Rightarrow> unit action" where
  "main_quote h voice_params QUOTES url out_dir =
     and_then (mkdir h out_dir)
       (\<lambda>_. and_then (say (Stdout (Quote_banner url)))
       (\<lambda>_. and_then (say (Stdout (Output_banner out_dir)))
       (\<lambda>_. and_then (version_check h url)
       (\<lambda>_. and_then (generate_quotes h voice_params url out_dir QUOTES [])
       (\<lambda>manifest. and_then (write_file h (out_dir, ''manifest.json'') (Manifest manifest))
       (\<lambda>_. say (Stdout Done)))))))"

definition generate_quote_voices ::
  "environment \<Rightarrow> host \<Rightarrow> (string \<times> string list) list \<Rightarrow> string option \<Rightarrow> string option
     \<Rightarrow> unit action" where
  "generate_quote_voices env h QUOTES cli_url cli_out =
     main_quote h VOICE_PARAMS QUOTES (quote_url env cli_url)
       (case cli_out of Some out \<Rightarrow> out | None \<Rightarrow> ''public/sounds/voice/quotes'')"

section \<open>\<open>update_voices.py\<close>\<close>

record voice =
  voice_filename :: string
  voice_text :: string
  voice_speed :: json
  voice_pitch :: json
  voice_intonation :: json

definition speaker_id :: int where
  "speaker_id = 3"

definition update_params :: "voice \<Rightarrow> (string \<times> pval) list" where
  "update_params voice_data = [(''text'', PStr (voice_text voice_data)), (''speaker'', PInt speaker_id)]"

definition update_query_request :: "voice \<Rightarrow> request" where
  "update_query_request voice_data =
     \<lparr>meth = POST, target = ''http://localhost:50021/audio_query'',
      params = update_params voice_data, headers = [], payload = None, timeout = None\<rparr>"

definition update_synthesis_request :: "voice \<Rightarrow> json \<Rightarrow> request" where
  "update_synthesis_request voice_data q =
     \<lparr>meth = POST, target = ''http://localhost:50021/synthesis'',
      params = update_params voice_data, headers = [(''Content-Type'', ''application/json'')],
      payload = Some q, timeout = None\<rparr>"

text \<open>\<open>q[k] = v\<close>; only a dictionary takes a string key.\<close>

definition setitem :: "string \<Rightarrow> json \<Rightarrow> json \<Rightarrow> json action" where
  "setitem k v q = (case q of JObj d \<Rightarrow> ret (JObj (dict_set k v d)) | _ \<Rightarrow> raise TypeError)"

text \<open>
  \<open>generate_wav\<close>.  The file is opened in the working directory, \<open>''.''\<close>;
  the final \<open>time.sleep(0.5)\<close> changes nothing that is modelled.
\<close>

definition generate_wav :: "host \<Rightarrow> voice \<Rightarrow> unit action" where
  "generate_wav h voice_data =
     and_then (send h (update_query_request voice_data))
       (\<lambda>r. and_then (json_of r)
       (\<lambda>q. and_then (setitem ''speedScale'' (voice_speed voice_data) q)
       (\<lambda>q. and_then (setitem ''pitchScale'' (voice_pitch voice_data) q)
       (\<lambda>q. and_then (setitem ''intonationScale'' (voice_intonation voice_data) q)
       (\<lambda>q. and_then (send h (update_synthesis_request voice_data q))
       (\<lambda>res. and_then (write_file h (''.'', voice_filename voice_data) (Audio (content res)))
       (\<lambda>_. say (Stdout (Generated_update (voice_filename voice_data))))))))))"

fun update_voices :: "host \<Rightarrow> voice list \<Rightarrow> unit action" where
  "update_voices h [] = ret ()"
| "update_voices h (v # vs) = and_then (generate_wav h v) (\<lambda>_. update_voices h vs)"

section \<open>Phases of a run\<close>

text \<open>What \<open>main\<close> does before its loop.\<close>

definition voicevox_prologue :: "host \<Rightarrow> string \<Rightarrow> string \<Rightarrow> unit action" where
  "voicevox_prologue h url output_dir =
     and_then (mkdir h output_dir)
       (\<lambda>_. and_then (say (Stderr Note_remote_access))
       (\<lambda>_. and_then (say (Stdout (Voicevox_banner url)))
       (\<lambda>_. and_then (say (Stdout (Output_banner output_dir)))
       (\<lambda>_. healthcheck h url))))"

definition quote_prologue :: "host \<Rightarrow> string \<Rightarrow> string \<Rightarrow> unit action" where
  "quote_prologue h url out_dir =
     and_then (mkdir h out_dir)
       (\<lambda>_. and_then (say (Stdout (Quote_banner url)))
       (\<lambda>_. and_then (say (Stdout (Output_banner out_dir)))
       (\<lambda>_. version_check h url)))"

text \<open>The two requests of one item, with the tuning between them.\<close>

definition query_and_render ::
  "host \<Rightarrow> string \<Rightarrow> (string \<times> json) list option \<Rightarrow> string \<Rightarrow> bytes action" where
  "query_and_render h url tuning text =
     and_then (audio_query h url text)
       (\<lambda>query. and_then (apply_tuning tuning query) (\<lambda>query. synthesis h url query))"

text \<open>The query of \<open>generate_wav\<close> after its three assignments.\<close>

definition tuned :: "voice \<Rightarrow> (string \<times> json) list \<Rightarrow> (string \<times> json) list" where
  "tuned voice_data q =
     dict_set ''intonationScale'' (voice_intonation voice_data)
       (dict_set ''pitchScale'' (voice_pitch voice_data)
          (dict_set ''speedScale'' (voice_speed voice_data) q))"

text \<open>The manifest of a table, and a path that holds audio.\<close>

definition expected_manifest :: "(string \<times> string list) list \<Rightarrow> (string \<times> string list) list" where
  "expected_manifest QUOTES =
     map (\<lambda>(category, lines). (category, map (quote_filename category) [0..<length lines])) QUOTES"

definition audio_at :: "state \<Rightarrow> path \<Rightarrow> bool" where
  "audio_at st p = (\<exists>wav. files st p = Some (Audio wav))"

text \<open>Every request an action sends satisfies \<open>P\<close>.\<close>

definition emits :: "(request \<Rightarrow> bool) \<Rightarrow> 'a action \<Rightarrow> bool" where
  "emits P m = (\<forall>st. \<exists>new. sent (snd (m st)) = sent st @ new \<and> list_all P new)"

text \<open>The requests of the two scripts under \<open>scripts/\<close>, with their timeouts.\<close>

definition timed_request :: "request \<Rightarrow> string \<Rightarrow> request \<Rightarrow> bool" where
  "timed_request check url rq =
     (rq = check \<and> timeout rq = Some 10
      \<or> (\<exists>line. rq = audio_query_request url line) \<and> timeout rq = Some 30
      \<or> (\<exists>query. rq = synthesis_request url query) \<and> timeout rq = Some 60)"

section \<open>A stub service and example inputs\<close>

definition stub_fields :: "(string \<times> json) list" where
  "stub_fields =
     [(''accent_phrases'', JArr []), (''speedScale'', JNum 1), (''pitchScale'', JNum 0),
      (''intonationScale'', JNum 1), (''volumeScale'', JNum 1)]"

definition stub_query :: json where
  "stub_query = JObj stub_fields"

definition safe_tile_1 :: voice where
  "safe_tile_1 =
     \<lparr>voice_filename = ''SAFE_TILE_1.wav'', voice_text = ''hai hai'', voice_speed = JNum 1.2,
      voice_pitch = JNum 0.0, voice_intonation = JNum 1.2\<rparr>"

definition stub_response :: response where
  "stub_response = \<lparr>status_code = 200, content = [82, 73, 70, 70], json_value = Some stub_query\<rparr>"

definition stub_host :: host where
  "stub_host =
     \<lparr>http = (\<lambda>history rq. Returns stub_response), can_mkdir = (\<lambda>_. True),
      can_write = (\<lambda>_. True)\<rparr>"

definition empty_state :: state where
  "empty_state = \<lparr>files = (\<lambda>_. None), sent = [], printed = []\<rparr>"

definition no_healthcheck_host :: "exn \<Rightarrow> host" where
  "no_healthcheck_host e =
     \<lparr>http = (\<lambda>history rq. if meth rq = GET then Raises e else Returns stub_response),
      can_mkdir = (\<lambda>_. True), can_write = (\<lambda>_. True)\<rparr>"

definition error_response :: "nat \<Rightarrow> response" where
  "error_response s = \<lparr>status_code = s, content = [111, 111, 112, 115], json_value = None\<rparr>"

definition bad_healthcheck_host :: "nat \<Rightarrow> host" where
  "bad_healthcheck_host s =
     \<lparr>http = (\<lambda>history rq. if meth rq = GET then Returns (error_response s)
                          else Returns stub_response),
      can_mkdir = (\<lambda>_. True), can_write = (\<lambda>_. True)\<rparr>"

definition failing_host :: "nat \<Rightarrow> reply \<Rightarrow> host" where
  "failing_host k answer =
     \<lparr>http = (\<lambda>history rq. if length history = k then answer else Returns stub_response),
      can_mkdir = (\<lambda>_. True), can_write = (\<lambda>_. True)\<rparr>"

definition three_lines :: "(string \<times> string) list" where
  "three_lines = [(''a.wav'', ''one''), (''b.wav'', ''two''), (''c.wav'', ''three'')]"

definition two_categories :: "(string \<times> string list) list" where
  "two_categories = [(''A'', [''x'']), (''B'', [''y'', ''z''])]"

section \<open>Gateway decoding and endpoint resolution\<close>

lemma hexval_Some:
  "hexval c = Some d \<Longrightarrow>
     d < 16 \<and> \<not> isspace c \<and> c \<noteq> CHR ''_'' \<and> c \<noteq> CHR ''+'' \<and> c \<noteq> CHR ''-'' \<and>
     c \<noteq> CHR ''x'' \<and> c \<noteq> CHR ''X''"
  by (auto simp: hexval_def isspace_def Let_def split: if_splits)

lemma strip_no_space:
  "\<not> isspace a \<Longrightarrow> \<not> isspace b \<Longrightarrow> strip (a # cs @ [b]) = a # cs @ [b]"
  by (simp add: strip_def)

lemma int16_hex8:
  assumes "hexval h1 = Some d1" "hexval h2 = Some d2" "hexval h3 = Some d3" "hexval h4 = Some d4"
    "hexval h5 = Some d5" "hexval h6 = Some d6" "hexval h7 = Some d7" "hexval h8 = Some d8"
  shows "int16 [h1, h2, h3, h4, h5, h6, h7, h8] =
     Inr (int (16 * (16 * (16 * (16 * (16 * (16 * (16 * d1 + d2) + d3) + d4) + d5) + d6) + d7) + d8))"
proof -
  note f = assms [THEN hexval_Some]
  have s: "strip [h1, h2, h3, h4, h5, h6, h7, h8] = [h1, h2, h3, h4, h5, h6, h7, h8]"
    using strip_no_space [of h1 h8 "[h2, h3, h4, h5, h6, h7]"] f by simp
  show ?thesis
    unfolding int16_def s using f by (simp add: assms)
qed

lemma byte_step:
  fixes b r :: nat
  assumes "b < 256"
  shows "(b + 256 * r) mod 256 = b" "(b + 256 * r) div 256 = r"
  using assms by simp_all

lemma le_bytes:
  fixes b0 b1 b2 b3 :: nat
  assumes "b0 < 256" "b1 < 256" "b2 < 256" "b3 < 256"
  defines "v \<equiv> b0 + 256 * (b1 + 256 * (b2 + 256 * b3))"
  shows "v < 4294967296" "v mod 256 = b0" "v div 256 mod 256 = b1"
    "v div 65536 mod 256 = b2" "v div 16777216 mod 256 = b3"
proof -
  show "v < 4294967296" using assms by simp
  show "v mod 256 = b0" unfolding v_def using assms(1) by (rule byte_step)
  have d1: "v div 256 = b1 + 256 * (b2 + 256 * b3)"
    unfolding v_def using assms(1) by (rule byte_step)
  show "v div 256 mod 256 = b1" unfolding d1 using assms(2) by (rule byte_step)
  have "v div 256 div 256 = b2 + 256 * b3"
    unfolding d1 using assms(2) by (rule byte_step)
  then have d2: "v div 65536 = b2 + 256 * b3"
    by (simp add: div_mult2_eq [symmetric])
  show "v div 65536 mod 256 = b2" unfolding d2 using assms(3) by (rule byte_step)
  have "v div 65536 div 256 = b3"
    unfolding d2 using assms(3) byte_step(2) [of b2 b3] by simp
  then have d3: "v div 16777216 = b3"
    by (simp add: div_mult2_eq [symmetric])
  show "v div 16777216 mod 256 = b3" unfolding d3 using assms(4) by simp
qed

lemma to_bytes4_hex8:
  assumes "d1 < 16" "d2 < 16" "d3 < 16" "d4 < 16" "d5 < 16" "d6 < 16" "d7 < 16" "d8 < (16::nat)"
  shows "to_bytes4_little
       (int (16 * (16 * (16 * (16 * (16 * (16 * (16 * d1 + d2) + d3) + d4) + d5) + d6) + d7) + d8))
     = Inr [16 * d7 + d8, 16 * d5 + d6, 16 * d3 + d4, 16 * d1 + d2]"
proof -
  define b0 b1 b2 b3 where "b0 = 16 * d7 + d8" and "b1 = 16 * d5 + d6"
    and "b2 = 16 * d3 + d4" and "b3 = 16 * d1 + d2"
  define v where "v = b0 + 256 * (b1 + 256 * (b2 + 256 * b3))"
  have b: "b0 < 256" "b1 < 256" "b2 < 256" "b3 < 256"
    using assms by (simp_all add: b0_def b1_def b2_def b3_def)
  have v: "16 * (16 * (16 * (16 * (16 * (16 * (16 * d1 + d2) + d3) + d4) + d5) + d6) + d7) + d8 = v"
    by (simp add: v_def b0_def b1_def b2_def b3_def)
  note le = le_bytes [OF b, folded v_def]
  have "to_bytes4_little (int v) = Inr [b0, b1, b2, b3]"
    using le by (simp add: to_bytes4_little_def)
  then show ?thesis
    unfolding v by (simp only: b0_def b1_def b2_def b3_def)
qed

lemma decode_hex8:
  assumes "hexval h1 = Some d1" "hexval h2 = Some d2" "hexval h3 = Some d3" "hexval h4 = Some d4"
    "hexval h5 = Some d5" "hexval h6 = Some d6" "hexval h7 = Some d7" "hexval h8 = Some d8"
    and "split (strip line) = iface # ''00000000'' # [h1, h2, h3, h4, h5, h6, h7, h8] # others"
  shows "scan_route (line # rest) =
     Inr (Some (dotted (16 * d7 + d8) (16 * d5 + d6) (16 * d3 + d4) (16 * d1 + d2)))"
proof -
  note f = assms(1-8) [THEN hexval_Some]
  have i: "int16 (split (strip line) ! 2) =
     Inr (int (16 * (16 * (16 * (16 * (16 * (16 * (16 * d1 + d2) + d3) + d4) + d5) + d6) + d7) + d8))"
    using int16_hex8 [OF assms(1-8)] by (simp add: assms(9))
  have t: "to_bytes4_little
       (int (16 * (16 * (16 * (16 * (16 * (16 * (16 * d1 + d2) + d3) + d4) + d5) + d6) + d7) + d8))
     = Inr [16 * d7 + d8, 16 * d5 + d6, 16 * d3 + d4, 16 * d1 + d2]"
    using f by (intro to_bytes4_hex8) simp_all
  have l: "\<not> length (split (strip line)) < 3" "split (strip line) ! 1 = ''00000000''"
    by (simp_all add: assms(9))
  show ?thesis
    by (simp only: scan_route.simps Let_def l i t inet_ntoa.simps
        if_False if_True sum.case simp_thms)
qed




lemmas route_examples = tab_def route_header_def route_local_def route_default_def
  route_broken_def split_def strip_def isspace_def


lemma fields_route_default:
  "split (strip route_default) = [''eth0'', ''00000000'', ''0100007F'', ''0003'']"
  by (simp add: route_examples)








lemma resolver_fallback:
  "\<not> truthy (environ env ''VOICEVOX_HOST'') \<Longrightarrow>
   \<not> gethostbyname_ok env ''host.docker.internal'' \<Longrightarrow>
   get_default_gateway_linux env = Inr None \<Longrightarrow>
   default_voicevox_host env = Inr ''127.0.0.1''"
  by (simp add: default_voicevox_host_def resolve_host_or_none_def)

lemma resolver_override:
  "environ env ''VOICEVOX_HOST'' = Some h \<Longrightarrow> h \<noteq> [] \<Longrightarrow> default_voicevox_host env = Inr h"
  by (simp add: default_voicevox_host_def)

lemma resolver_alias:
  "\<not> truthy (environ env ''VOICEVOX_HOST'') \<Longrightarrow>
   gethostbyname_ok env ''host.docker.internal'' \<Longrightarrow>
   default_voicevox_host env = Inr ''host.docker.internal''"
  by (simp add: default_voicevox_host_def resolve_host_or_none_def)

lemma resolver_gateway:
  "\<not> truthy (environ env ''VOICEVOX_HOST'') \<Longrightarrow>
   \<not> gethostbyname_ok env ''host.docker.internal'' \<Longrightarrow>
   get_default_gateway_linux env = Inr (Some ip) \<Longrightarrow> ip \<noteq> [] \<Longrightarrow>
   default_voicevox_host env = Inr ip"
  by (simp add: default_voicevox_host_def resolve_host_or_none_def)








lemma voicevox_url_cli:
  "default_voicevox_host env = Inr host \<Longrightarrow> voicevox_url env (Some u) = Inr u"
  by (simp add: voicevox_url_def DEFAULT_VOICEVOX_URL_def)

lemma voicevox_url_env:
  "default_voicevox_host env = Inr host \<Longrightarrow> environ env ''VOICEVOX_URL'' = Some v \<Longrightarrow> v \<noteq> [] \<Longrightarrow>
   voicevox_url env None = Inr v"
  by (simp add: voicevox_url_def DEFAULT_VOICEVOX_URL_def)

lemma voicevox_url_host_port:
  "default_voicevox_host env = Inr host \<Longrightarrow> \<not> truthy (environ env ''VOICEVOX_URL'') \<Longrightarrow>
   voicevox_url env None =
     Inr (''http://'' @ host @ '':'' @ py_or (environ env ''VOICEVOX_PORT'') ''50021'')"
  by (cases "environ env ''VOICEVOX_URL''")
     (simp_all add: voicevox_url_def DEFAULT_VOICEVOX_URL_def DEFAULT_VOICEVOX_PORT_def)

lemma quote_url_cli: "quote_url env (Some u) = rstrip_slash u"
  by (simp add: quote_url_def)

lemma quote_url_env:
  "environ env ''VOICEVOX_URL'' = Some v \<Longrightarrow> v \<noteq> [] \<Longrightarrow> quote_url env None = rstrip_slash v"
  by (simp add: quote_url_def VOICEVOX_URL_DEFAULT_def)

lemma quote_url_default:
  "\<not> truthy (environ env ''VOICEVOX_URL'') \<Longrightarrow> quote_url env None = ''http://localhost:50021''"
  by (cases "environ env ''VOICEVOX_URL''")
     (simp_all add: quote_url_def VOICEVOX_URL_DEFAULT_def rstrip_slash_def)

lemma rstrip_slash_id: "u = [] \<or> last u \<noteq> CHR ''/'' \<Longrightarrow> rstrip_slash u = u"
  by (cases u rule: rev_cases) (simp_all add: rstrip_slash_def)

text \<open>
  Claim C4, as amended.  In \<open>generate_voicevox_voices.py\<close> a non-empty
  \<open>VOICEVOX_HOST\<close> is the host whatever DNS and the routing table say, then
  the alias, then the gateway, then \<open>127.0.0.1\<close>; when host discovery
  returns, the endpoint is \<open>--url\<close> as given, else a non-empty
  \<open>VOICEVOX_URL\<close> as given, else \<open>http://HOST:PORT\<close>.  In
  \<open>generate_quote_voices.py\<close> the endpoint is \<open>--url\<close>, else a non-empty
  \<open>VOICEVOX_URL\<close>, else \<open>http://localhost:50021\<close>, with trailing slashes
  removed; a value that does not end in a slash is kept as it is.
\<close>

theorem endpoint_precedence:
  "(environ env ''VOICEVOX_HOST'' = Some h \<and> h \<noteq> [] \<longrightarrow> default_voicevox_host env = Inr h)
   \<and> (\<not> truthy (environ env ''VOICEVOX_HOST'') \<and> gethostbyname_ok env ''host.docker.internal''
        \<longrightarrow> default_voicevox_host env = Inr ''host.docker.internal'')
   \<and> (\<not> truthy (environ env ''VOICEVOX_HOST'') \<and> \<not> gethostbyname_ok env ''host.docker.internal''
        \<and> get_default_gateway_linux env = Inr (Some ip) \<and> ip \<noteq> []
        \<longrightarrow> default_voicevox_host env = Inr ip)
   \<and> (\<not> truthy (environ env ''VOICEVOX_HOST'') \<and> \<not> gethostbyname_ok env ''host.docker.internal''
        \<and> get_default_gateway_linux env = Inr None
        \<longrightarrow> default_voicevox_host env = Inr ''127.0.0.1'')
   \<and> (default_voicevox_host env = Inr host \<longrightarrow>
        voicevox_url env (Some u) = Inr u
        \<and> (environ env ''VOICEVOX_URL'' = Some v \<and> v \<noteq> [] \<longrightarrow> voicevox_url env None = Inr v)
        \<and> (\<not> truthy (environ env ''VOICEVOX_URL'') \<longrightarrow>
             voicevox_url env None =
               Inr (''http://'' @ host @ '':'' @ py_or (environ env ''VOICEVOX_PORT'') ''50021'')))
   \<and> quote_url env (Some u) = rstrip_slash u
   \<and> (environ env ''VOICEVOX_URL'' = Some v \<and> v \<noteq> [] \<longrightarrow> quote_url env None = rstrip_slash v)
   \<and> (\<not> truthy (environ env ''VOICEVOX_URL'') \<longrightarrow> quote_url env None = ''http://localhost:50021'')
   \<and> (u = [] \<or> last u \<noteq> CHR ''/'' \<longrightarrow> rstrip_slash u = u)"
  using resolver_override [of env h] resolver_alias [of env] resolver_gateway [of env ip]
    resolver_fallback [of env] voicevox_url_cli [of env host u] voicevox_url_env [of env host v]
    voicevox_url_host_port [of env host] quote_url_cli [of env u] quote_url_env [of env v]
    quote_url_default [of env] rstrip_slash_id [of u]
  by blast

lemma scan_route_default: "scan_route [route_default] = Inr (Some ''127.0.0.1'')"
proof -
  have h: "hexval CHR ''0'' = Some 0" "hexval CHR ''1'' = Some 1" "hexval CHR ''7'' = Some 7"
    "hexval CHR ''F'' = Some 15"
    by (simp_all add: hexval_def)
  have f: "split (strip route_default)
      = ''eth0'' # ''00000000'' #
        [CHR ''0'', CHR ''1'', CHR ''0'', CHR ''0'', CHR ''0'', CHR ''0'', CHR ''7'', CHR ''F'']
        # [''0003'']"
    by (simp add: fields_route_default)
  show ?thesis
    using decode_hex8 [OF h(1) h(2) h(1) h(1) h(1) h(1) h(3) h(4) f, of "[]"]
    by (simp add: dotted_def str_nat.simps digit_char_def del: scan_route.simps)
qed

lemma gateway_example:
  "proc_net_route env = Some [route_header, route_default] \<Longrightarrow>
   get_default_gateway_linux env = Inr (Some ''127.0.0.1'')"
  by (simp add: get_default_gateway_linux_def scan_route_default del: scan_route.simps)

theorem endpoint_precedence_witness:
  "default_voicevox_host (override_env host_port_vars) = Inr ''10.0.0.5''
   \<and> voicevox_url (override_env host_port_vars) (Some ''http://example:1'') = Inr ''http://example:1''
   \<and> voicevox_url (override_env host_port_vars) None = Inr ''http://10.0.0.5:50121''
   \<and> quote_url (override_env host_port_vars) (Some ''http://example:1'') = ''http://example:1''
   \<and> quote_url (override_env host_port_vars) None = ''http://localhost:50021''
   \<and> default_voicevox_host (override_env url_vars) = Inr ''host.docker.internal''
   \<and> voicevox_url (override_env url_vars) None = Inr ''http://svc:9''
   \<and> quote_url (override_env url_vars) None = ''http://svc:9''
   \<and> default_voicevox_host (bare_env (Some [route_header, route_default])) = Inr ''127.0.0.1''
   \<and> default_voicevox_host (bare_env None) = Inr ''127.0.0.1''"
proof -
  let ?A = "override_env host_port_vars" and ?B = "override_env url_vars"
  let ?C = "bare_env (Some [route_header, route_default])" and ?D = "bare_env None"
  have a: "environ ?A ''VOICEVOX_HOST'' = Some ''10.0.0.5''" "''10.0.0.5'' \<noteq> []"
    "\<not> truthy (environ ?A ''VOICEVOX_URL'')"
    "py_or (environ ?A ''VOICEVOX_PORT'') ''50021'' = ''50121''"
    "''http://example:1'' = [] \<or> last ''http://example:1'' \<noteq> CHR ''/''"
    by (simp_all add: override_env_def host_port_vars_def)
  have b: "\<not> truthy (environ ?B ''VOICEVOX_HOST'')" "gethostbyname_ok ?B ''host.docker.internal''"
    "environ ?B ''VOICEVOX_URL'' = Some ''http://svc:9''" "''http://svc:9'' \<noteq> []"
    "''http://svc:9'' = [] \<or> last ''http://svc:9'' \<noteq> CHR ''/''"
    by (simp_all add: override_env_def url_vars_def)
  have c: "\<not> truthy (environ ?C ''VOICEVOX_HOST'')" "\<not> gethostbyname_ok ?C ''host.docker.internal''"
    "get_default_gateway_linux ?C = Inr (Some ''127.0.0.1'')" "''127.0.0.1'' \<noteq> []"
    by (simp_all add: bare_env_def gateway_example)
  have d: "\<not> truthy (environ ?D ''VOICEVOX_HOST'')" "\<not> gethostbyname_ok ?D ''host.docker.internal''"
    "get_default_gateway_linux ?D = Inr None"
    by (simp_all add: bare_env_def get_default_gateway_linux_def)
  note A = endpoint_precedence [of ?A "''10.0.0.5''" _ "''10.0.0.5''" "''http://example:1''"]
  note B = endpoint_precedence
    [of ?B _ _ "''host.docker.internal''" "''http://svc:9''" "''http://svc:9''"]
  note C = endpoint_precedence [of ?C _ "''127.0.0.1''"]
  note D = endpoint_precedence [of ?D]
  have hA: "default_voicevox_host ?A = Inr ''10.0.0.5''" using A a by blast
  have hB: "default_voicevox_host ?B = Inr ''host.docker.internal''" using B b by blast
  have "voicevox_url ?A (Some ''http://example:1'') = Inr ''http://example:1''"
    using A hA by blast
  moreover have "voicevox_url ?A None = Inr ''http://10.0.0.5:50121''"
    using A hA a(3) a(4) by simp
  moreover have "quote_url ?A (Some ''http://example:1'') = ''http://example:1''"
    using A a(5) by simp
  moreover have "quote_url ?A None = ''http://localhost:50021''"
    using A a(3) by blast
  moreover have "voicevox_url ?B None = Inr ''http://svc:9''"
    using B hB b(3) b(4) by blast
  moreover have "quote_url ?B None = ''http://svc:9''"
    using B b(3) b(4) b(5) by simp
  moreover have "default_voicevox_host ?C = Inr ''127.0.0.1''" using C c by blast
  moreover have "default_voicevox_host ?D = Inr ''127.0.0.1''" using D d by blast
  ultimately show ?thesis using hA hB by blast
qed

text \<open>
  An override ending in a slash is not used verbatim by
  \<open>generate_quote_voices.py\<close>.
\<close>

theorem override_modified_counterexample:
  "quote_url (bare_env None) (Some ''http://example:1/'') = ''http://example:1''
   \<and> quote_url (bare_env None) (Some ''http://example:1/'') \<noteq> ''http://example:1/''"
  by (simp add: quote_url_def rstrip_slash_def)

section \<open>Tuning parameters\<close>

lemmas action_defs = ret_def raise_def and_then_def try_except_def say_def




lemma send_Raises:
  "http h (sent st) rq = Raises e \<Longrightarrow> send h rq st = (Inl e, st\<lparr>sent := sent st @ [rq]\<rparr>)"
  by (simp add: send_def)

lemma sent_send: "sent (snd (send h rq st)) = sent st @ [rq]"
  by (simp add: send_def Let_def split: reply.splits)

lemma sent_raise_for_status: "sent (snd (raise_for_status r st)) = sent st"
  by (simp add: raise_for_status_def action_defs)

lemma sent_synthesis: "sent (snd (synthesis h url query st)) = sent st @ [synthesis_request url query]"
  by (simp add: synthesis_def and_then_def send_def Let_def raise_for_status_def ret_def raise_def
      split: reply.splits)








section \<open>The health check\<close>

lemma main_voicevox_connect_failure:
  assumes "can_mkdir h output_dir"
    and "http h (sent st) (speakers_request url) = Raises e"
    and "e = ConnectionError \<or> e = Timeout"
  shows "main_voicevox h LINES url output_dir st =
     (Inl (SystemExit 2),
      st\<lparr>sent := sent st @ [speakers_request url],
         printed := printed st @
           [Stderr Note_remote_access, Stdout (Voicevox_banner url),
            Stdout (Output_banner output_dir), Stderr Err_could_not_connect,
            Stderr (Err_url url), Stderr Err_please_ensure, Stderr Err_hint,
            Stderr (Err_details e)]\<rparr>)"
  using assms
  by (auto simp: main_voicevox_def healthcheck_def check_voicevox_def mkdir_def action_defs
      send_def)

lemma main_voicevox_status_failure:
  assumes "can_mkdir h output_dir"
    and "http h (sent st) (speakers_request url) = Returns r"
    and "is_error_status (status_code r)"
  shows "main_voicevox h LINES url output_dir st =
     (Inl (SystemExit 3),
      st\<lparr>sent := sent st @ [speakers_request url],
         printed := printed st @
           [Stderr Note_remote_access, Stdout (Voicevox_banner url),
            Stdout (Output_banner output_dir), Stderr Err_healthcheck_http,
            Stderr (Err_details (HTTPError (status_code r)))]\<rparr>)"
  using assms
  by (auto simp: main_voicevox_def healthcheck_def check_voicevox_def mkdir_def action_defs
      send_def raise_for_status_def)

lemma version_check_connect_failure:
  assumes "http h (sent st) (version_request url) = Raises e"
    and "e = ConnectionError \<or> e = Timeout"
  shows "version_check h url st =
     (Inr (), st\<lparr>sent := sent st @ [version_request url],
                 printed := printed st @ [Stdout (Warn_version_check e)]\<rparr>)"
  using assms by (auto simp: version_check_def action_defs send_def)

lemma version_check_status_failure:
  assumes "http h (sent st) (version_request url) = Returns r"
    and "is_error_status (status_code r)"
  shows "version_check h url st =
     (Inr (), st\<lparr>sent := sent st @ [version_request url],
                 printed := printed st @
                   [Stdout (Warn_version_check (HTTPError (status_code r)))]\<rparr>)"
  using assms by (auto simp: version_check_def action_defs send_def raise_for_status_def)

text \<open>
  Claim C5, as amended.  In \<open>generate_voicevox_voices.py\<close> a health check
  that fails with a connection error or a timeout ends the run with exit
  status 2, and one answered with an error status ends it with exit status 3;
  in both cases the diagnostic lines are printed, the health check is the only
  request sent and no file is written.  In \<open>generate_quote_voices.py\<close> a
  failed version check prints a warning and returns normally, so the batch
  follows.
\<close>

theorem healthcheck_failure:
  "(can_mkdir h output_dir \<and> http h (sent st) (speakers_request url) = Raises e
      \<and> (e = ConnectionError \<or> e = Timeout)
    \<longrightarrow> exit_status (fst (main_voicevox h LINES url output_dir st)) = 2
        \<and> snd (main_voicevox h LINES url output_dir st) =
            st\<lparr>sent := sent st @ [speakers_request url],
               printed := printed st @
                 [Stderr Note_remote_access, Stdout (Voicevox_banner url),
                  Stdout (Output_banner output_dir), Stderr Err_could_not_connect,
                  Stderr (Err_url url), Stderr Err_please_ensure, Stderr Err_hint,
                  Stderr (Err_details e)]\<rparr>)
   \<and> (can_mkdir h output_dir \<and> http h (sent st) (speakers_request url) = Returns r
      \<and> is_error_status (status_code r)
    \<longrightarrow> exit_status (fst (main_voicevox h LINES url output_dir st)) = 3
        \<and> snd (main_voicevox h LINES url output_dir st) =
            st\<lparr>sent := sent st @ [speakers_request url],
               printed := printed st @
                 [Stderr Note_remote_access, Stdout (Voicevox_banner url),
                  Stdout (Output_banner output_dir), Stderr Err_healthcheck_http,
                  Stderr (Err_details (HTTPError (status_code r)))]\<rparr>)
   \<and> (http h (sent st) (version_request url) = Raises e \<and> (e = ConnectionError \<or> e = Timeout)
    \<longrightarrow> version_check h url st =
          (Inr (), st\<lparr>sent := sent st @ [version_request url],
                      printed := printed st @ [Stdout (Warn_version_check e)]\<rparr>))
   \<and> (http h (sent st) (version_request url) = Returns r \<and> is_error_status (status_code r)
    \<longrightarrow> version_check h url st =
          (Inr (), st\<lparr>sent := sent st @ [version_request url],
                      printed := printed st @
                        [Stdout (Warn_version_check (HTTPError (status_code r)))]\<rparr>))"
  using main_voicevox_connect_failure [of h output_dir st url e LINES]
    main_voicevox_status_failure [of h output_dir st url r LINES]
    version_check_connect_failure [of h st url e]
    version_check_status_failure [of h st url r]
  by simp

lemmas run_defs = Let_def action_defs send_def mkdir_def write_file_def raise_for_status_def json_of_def
  is_error_status_def audio_query_def synthesis_def check_voicevox_def healthcheck_def
  version_check_def apply_tuning_def manifest_append_def quote_filename_def
  generate_line_def generate_quote_def main_voicevox_def main_quote_def generate_wav_def
  setitem_def

lemmas stub_defs = stub_host_def stub_response_def stub_query_def stub_fields_def empty_state_def
  no_healthcheck_host_def bad_healthcheck_host_def error_response_def

lemmas request_defs = speakers_request_def version_request_def audio_query_request_def
  synthesis_request_def update_query_request_def update_synthesis_request_def update_params_def

theorem healthcheck_failure_witness:
  "exit_status (fst (main_voicevox (no_healthcheck_host Timeout) [(''zunda_pon.wav'', ''pon'')]
       ''http://svc'' ''out'' empty_state)) = 2
   \<and> sent (snd (main_voicevox (no_healthcheck_host Timeout) [(''zunda_pon.wav'', ''pon'')]
       ''http://svc'' ''out'' empty_state)) = [speakers_request ''http://svc'']
   \<and> exit_status (fst (main_voicevox (bad_healthcheck_host 503) [(''zunda_pon.wav'', ''pon'')]
       ''http://svc'' ''out'' empty_state)) = 3
   \<and> sent (snd (main_voicevox (bad_healthcheck_host 503) [(''zunda_pon.wav'', ''pon'')]
       ''http://svc'' ''out'' empty_state)) = [speakers_request ''http://svc'']
   \<and> fst (version_check (no_healthcheck_host Timeout) ''http://svc'' empty_state) = Inr ()
   \<and> fst (version_check (bad_healthcheck_host 503) ''http://svc'' empty_state) = Inr ()"
proof -
  let ?A = "no_healthcheck_host Timeout" and ?B = "bad_healthcheck_host 503"
  have a: "can_mkdir ?A ''out''"
    "http ?A (sent empty_state) (speakers_request ''http://svc'') = Raises Timeout"
    "http ?A (sent empty_state) (version_request ''http://svc'') = Raises Timeout"
    by (simp_all add: stub_defs request_defs)
  have b: "can_mkdir ?B ''out''"
    "http ?B (sent empty_state) (speakers_request ''http://svc'') = Returns (error_response 503)"
    "http ?B (sent empty_state) (version_request ''http://svc'') = Returns (error_response 503)"
    "is_error_status (status_code (error_response 503))"
    by (simp_all add: stub_defs request_defs is_error_status_def)
  have e: "sent empty_state = []"
    by (simp add: empty_state_def)
  note A = healthcheck_failure
    [of ?A "''out''" empty_state "''http://svc''" Timeout "[(''zunda_pon.wav'', ''pon'')]"]
  note B = healthcheck_failure
    [of ?B "''out''" empty_state "''http://svc''" _ "[(''zunda_pon.wav'', ''pon'')]"
      "error_response 503"]
  show ?thesis
    using A B a b by (simp add: e)
qed

text \<open>
  In \<open>generate_quote_voices.py\<close> the version check times out and the batch
  still runs: the item is requested and its file written.
\<close>

theorem healthcheck_failure_counterexample:
  "http (no_healthcheck_host Timeout) [] (version_request ''http://svc'') = Raises Timeout
   \<and> fst (main_quote (no_healthcheck_host Timeout) VOICE_PARAMS [(''DEFENSE'', [''hi''])]
            ''http://svc'' ''out'' empty_state) = Inr ()
   \<and> sent (snd (main_quote (no_healthcheck_host Timeout) VOICE_PARAMS [(''DEFENSE'', [''hi''])]
            ''http://svc'' ''out'' empty_state))
       = [version_request ''http://svc'', audio_query_request ''http://svc'' ''hi'',
          synthesis_request ''http://svc'' stub_query]
   \<and> files (snd (main_quote (no_healthcheck_host Timeout) VOICE_PARAMS [(''DEFENSE'', [''hi''])]
            ''http://svc'' ''out'' empty_state)) (''out'', ''DEFENSE_0.wav'')
       = Some (Audio [82, 73, 70, 70])"
  by (simp add: run_defs stub_defs request_defs VOICE_PARAMS_def str_nat.simps digit_char_def)

section \<open>Abort at the first failing item\<close>

lemma and_then_Inl: "m st = (Inl e, st') \<Longrightarrow> and_then m f st = (Inl e, st')"
  by (simp add: and_then_def)

lemma and_then_Inr: "m st = (Inr x, st') \<Longrightarrow> and_then m f st = f x st'"
  by (simp add: and_then_def)

lemma and_then_assoc: "and_then (and_then m f) g = and_then m (\<lambda>x. and_then (f x) g)"
  by (auto simp: and_then_def fun_eq_iff split: prod.splits sum.splits)

lemma main_voicevox_split:
  "main_voicevox h LINES url output_dir =
     and_then (voicevox_prologue h url output_dir)
       (\<lambda>_. and_then (generate_lines h url output_dir LINES 0)
               (\<lambda>generated. say (Stdout (Done_generated generated))))"
  by (simp add: main_voicevox_def voicevox_prologue_def and_then_assoc)

lemma main_quote_split:
  "main_quote h voice_params QUOTES url out_dir =
     and_then (quote_prologue h url out_dir)
       (\<lambda>_. and_then (generate_quotes h voice_params url out_dir QUOTES [])
       (\<lambda>manifest. and_then (write_file h (out_dir, ''manifest.json'') (Manifest manifest))
       (\<lambda>_. say (Stdout Done))))"
  by (simp add: main_quote_def quote_prologue_def and_then_assoc)

lemma query_and_render_plain:
  "query_and_render h url None text = and_then (audio_query h url text) (synthesis h url)"
  by (simp add: query_and_render_def apply_tuning_def and_then_def ret_def)

lemma files_audio_query: "files (snd (audio_query h url text st)) = files st"
  by (auto simp: audio_query_def run_defs split: reply.splits option.splits)

lemma files_synthesis: "files (snd (synthesis h url q st)) = files st"
  by (auto simp: synthesis_def run_defs split: reply.splits)

lemma files_apply_tuning: "files (snd (apply_tuning t q st)) = files st"
  by (auto simp: apply_tuning_def action_defs split: option.splits json.splits)

lemma printed_audio_query: "printed (snd (audio_query h url line st)) = printed st"
  by (auto simp: audio_query_def run_defs split: reply.splits option.splits)

lemma printed_synthesis: "printed (snd (synthesis h url q st)) = printed st"
  by (auto simp: synthesis_def run_defs split: reply.splits)

lemma printed_apply_tuning: "printed (snd (apply_tuning t q st)) = printed st"
  by (auto simp: apply_tuning_def action_defs split: option.splits json.splits)

lemma sent_audio_query:
  "sent (snd (audio_query h url text st)) = sent st @ [audio_query_request url text]"
  by (auto simp: audio_query_def run_defs split: reply.splits option.splits)

lemma sent_apply_tuning: "sent (snd (apply_tuning t q st)) = sent st"
  by (auto simp: apply_tuning_def action_defs split: option.splits json.splits)

lemma query_and_render_frame:
  assumes "query_and_render h url tuning line st = (res, st')"
  shows "files st' = files st \<and> printed st' = printed st \<and>
     (sent st' = sent st @ [audio_query_request url line]
      \<or> (\<exists>q. sent st' = sent st @ [audio_query_request url line, synthesis_request url q]))"
proof -
  obtain r1 s1 where a: "audio_query h url line st = (r1, s1)"
    by (cases "audio_query h url line st")
  have a': "files s1 = files st" "sent s1 = sent st @ [audio_query_request url line]"
    "printed s1 = printed st"
    using files_audio_query [of h url line st] sent_audio_query [of h url line st]
      printed_audio_query [of h url line st]
    by (simp_all add: a)
  show ?thesis
  proof (cases r1)
    case (Inl e)
    with assms a a' show ?thesis
      by (simp add: query_and_render_def and_then_def)
  next
    case (Inr j)
    obtain r2 s2 where t: "apply_tuning tuning j s1 = (r2, s2)"
      by (cases "apply_tuning tuning j s1")
    have t': "files s2 = files s1" "sent s2 = sent s1" "printed s2 = printed s1"
      using files_apply_tuning [of tuning j s1] sent_apply_tuning [of tuning j s1]
        printed_apply_tuning [of tuning j s1]
      by (simp_all add: t)
    show ?thesis
    proof (cases r2)
      case (Inl e)
      with assms a a' t t' Inr show ?thesis
        by (simp add: query_and_render_def and_then_def)
    next
      case q: (Inr q)
      have "st' = snd (synthesis h url q s2)"
        using assms a t Inr q by (simp add: query_and_render_def and_then_def)
      then show ?thesis
        using files_synthesis [of h url q s2] sent_synthesis [of h url q s2]
          printed_synthesis [of h url q s2] a' t'
        by auto
    qed
  qed
qed

lemma generate_lines_append:
  "generate_lines h url output_dir (pre @ rest) generated =
     and_then (generate_lines h url output_dir pre generated)
       (\<lambda>n. generate_lines h url output_dir rest n)"
proof (induction pre arbitrary: generated)
  case Nil
  show ?case by (simp add: and_then_def ret_def)
next
  case (Cons entry pre)
  show ?case by (simp add: Cons.IH and_then_assoc)
qed

lemma generate_line_alt:
  "generate_line h url output_dir (filename, line) =
     and_then
       (try_except (query_and_render h url None line)
          (\<lambda>e. if request_failed e
               then and_then (say (Stderr (Err_failed_to_generate filename e)))
                      (\<lambda>_. raise (SystemExit 4))
               else raise e))
       (\<lambda>wav. and_then (write_file h (output_dir, filename) (Audio wav))
                (\<lambda>_. say (Stdout (Generated (output_dir, filename) (length wav) line))))"
  by (simp add: generate_line_def query_and_render_plain)

lemma generate_line_fails:
  assumes "query_and_render h url None line st = (Inl e, st')" and "request_failed e"
  shows "generate_line h url output_dir (filename, line) st =
     (Inl (SystemExit 4), st'\<lparr>printed := printed st' @ [Stderr (Err_failed_to_generate filename e)]\<rparr>)"
  by (simp add: generate_line_alt and_then_def try_except_def assms say_def raise_def)

lemma generate_category_append:
  "generate_category h voice_params url out_dir category i (pre @ rest) manifest =
     and_then (generate_category h voice_params url out_dir category i pre manifest)
       (\<lambda>m. generate_category h voice_params url out_dir category (i + length pre) rest m)"
proof (induction pre arbitrary: i manifest)
  case Nil
  show ?case by (simp add: and_then_def ret_def)
next
  case (Cons line pre)
  show ?case
    by (auto simp: Cons.IH and_then_def fun_eq_iff split: prod.splits sum.splits)
qed

lemma generate_quotes_append:
  "generate_quotes h voice_params url out_dir (pre @ rest) manifest =
     and_then (generate_quotes h voice_params url out_dir pre manifest)
       (\<lambda>m. generate_quotes h voice_params url out_dir rest m)"
proof (induction pre arbitrary: manifest)
  case Nil
  show ?case by (simp add: and_then_def ret_def)
next
  case (Cons entry pre)
  obtain category lines where "entry = (category, lines)" by (cases entry)
  then show ?case
    by (auto simp: Cons.IH and_then_def fun_eq_iff split: prod.splits sum.splits)
qed

lemma generate_quote_alt:
  "generate_quote h voice_params url out_dir category i line manifest =
     try_except
       (and_then (query_and_render h url (map_of voice_params category) line)
          (\<lambda>wav. and_then (write_file h (out_dir, quote_filename category i) (Audio wav))
          (\<lambda>_. and_then (manifest_append manifest category (quote_filename category i))
          (\<lambda>manifest. and_then
             (say (Stdout (Generated_quote (quote_filename category i) (length wav))))
          (\<lambda>_. ret manifest)))))
       (\<lambda>e. if request_failed e
            then and_then (say (Stdout (Err_failed category i e))) (\<lambda>_. raise e)
            else raise e)"
  by (simp add: generate_quote_def Let_def query_and_render_def and_then_assoc)

lemma generate_quote_fails:
  assumes "query_and_render h url (map_of voice_params category) line st = (Inl e, st')"
    and "request_failed e"
  shows "generate_quote h voice_params url out_dir category i line manifest st =
     (Inl e, st'\<lparr>printed := printed st' @ [Stdout (Err_failed category i e)]\<rparr>)"
  by (simp add: generate_quote_alt and_then_def try_except_def assms say_def raise_def)

lemma exit_status_request_failed: "request_failed e \<Longrightarrow> exit_status (Inl e) = 1"
  by (cases e) simp_all

lemma main_voicevox_first_failure:
  assumes "voicevox_prologue h url output_dir st0 = (Inr (), st)"
    and "generate_lines h url output_dir pre 0 st = (Inr n, st1)"
    and "query_and_render h url None line st1 = (Inl e, st2)"
    and "request_failed e"
  shows "main_voicevox h (pre @ (filename, line) # post) url output_dir st0 =
     (Inl (SystemExit 4),
      st2\<lparr>printed := printed st2 @ [Stderr (Err_failed_to_generate filename e)]\<rparr>)"
proof -
  have "generate_lines h url output_dir (pre @ (filename, line) # post) 0 st =
      generate_lines h url output_dir ((filename, line) # post) n st1"
    by (simp add: generate_lines_append and_then_def assms(2) del: generate_lines.simps)
  also have "\<dots> = (Inl (SystemExit 4),
      st2\<lparr>printed := printed st2 @ [Stderr (Err_failed_to_generate filename e)]\<rparr>)"
    by (simp add: and_then_def generate_line_fails [OF assms(3,4)])
  finally show ?thesis
    by (simp add: main_voicevox_split and_then_def assms(1))
qed

lemma main_quote_first_failure:
  assumes "quote_prologue h url out_dir st0 = (Inr (), st)"
    and "generate_quotes h voice_params url out_dir cpre [] st = (Inr m1, st1)"
    and "generate_category h voice_params url out_dir category 0 lpre (dict_set category [] m1) st1
           = (Inr m2, st2)"
    and "query_and_render h url (map_of voice_params category) line st2 = (Inl e, st3)"
    and "request_failed e"
  shows "main_quote h voice_params (cpre @ (category, lpre @ line # lpost) # cpost) url out_dir st0 =
     (Inl e, st3\<lparr>printed := printed st3 @ [Stdout (Err_failed category (length lpre) e)]\<rparr>)"
proof -
  let ?final = "st3\<lparr>printed := printed st3 @ [Stdout (Err_failed category (length lpre) e)]\<rparr>"
  have "generate_category h voice_params url out_dir category 0 (lpre @ line # lpost)
          (dict_set category [] m1) st1
      = generate_category h voice_params url out_dir category (length lpre) (line # lpost) m2 st2"
    by (simp add: generate_category_append and_then_def assms(3)
        del: generate_category.simps)
  also have "\<dots> = (Inl e, ?final)"
    by (simp add: and_then_def generate_quote_fails [OF assms(4,5)])
  finally have c: "generate_category h voice_params url out_dir category 0 (lpre @ line # lpost)
          (dict_set category [] m1) st1 = (Inl e, ?final)" .
  have "generate_quotes h voice_params url out_dir (cpre @ (category, lpre @ line # lpost) # cpost)
          [] st
      = generate_quotes h voice_params url out_dir ((category, lpre @ line # lpost) # cpost) m1 st1"
    by (simp add: generate_quotes_append and_then_def assms(2) del: generate_quotes.simps)
  also have "\<dots> = (Inl e, ?final)"
    by (simp add: and_then_def c del: generate_category.simps)
  finally show ?thesis
    by (simp add: main_quote_split and_then_def assms(1))
qed

text \<open>
  Claim C6.  Let the items before item \<open>k\<close> be generated, and let the query or
  the synthesis step of item \<open>k\<close> fail with a connection error, a timeout or
  an HTTP error.  Then \<open>generate_voicevox_voices.py\<close> exits with status 4 and
  \<open>generate_quote_voices.py\<close> with status 1; the files are those on disk
  after the items before \<open>k\<close>; the failure is reported with the item's
  identifier; and the last requests sent are those of item \<open>k\<close>, whatever
  items follow it in the table.
\<close>

theorem first_failure_aborts:
  "(voicevox_prologue h url output_dir st0 = (Inr (), st)
      \<and> generate_lines h url output_dir pre 0 st = (Inr n, st1)
      \<and> query_and_render h url None line st1 = (Inl e, st2) \<and> request_failed e
    \<longrightarrow> exit_status (fst (main_voicevox h (pre @ (filename, line) # post) url output_dir st0)) = 4
        \<and> files (snd (main_voicevox h (pre @ (filename, line) # post) url output_dir st0))
            = files st1
        \<and> printed (snd (main_voicevox h (pre @ (filename, line) # post) url output_dir st0))
            = printed st1 @ [Stderr (Err_failed_to_generate filename e)]
        \<and> (sent (snd (main_voicevox h (pre @ (filename, line) # post) url output_dir st0))
              = sent st1 @ [audio_query_request url line]
            \<or> (\<exists>q. sent (snd (main_voicevox h (pre @ (filename, line) # post) url output_dir st0))
                  = sent st1 @ [audio_query_request url line, synthesis_request url q])))
   \<and> (quote_prologue h url out_dir st0 = (Inr (), st)
      \<and> generate_quotes h voice_params url out_dir cpre [] st = (Inr m1, st1)
      \<and> generate_category h voice_params url out_dir category 0 lpre (dict_set category [] m1) st1
           = (Inr m2, st2)
      \<and> query_and_render h url (map_of voice_params category) line st2 = (Inl e, st3)
      \<and> request_failed e
    \<longrightarrow> exit_status (fst (main_quote h voice_params
            (cpre @ (category, lpre @ line # lpost) # cpost) url out_dir st0)) = 1
        \<and> files (snd (main_quote h voice_params
            (cpre @ (category, lpre @ line # lpost) # cpost) url out_dir st0)) = files st2
        \<and> printed (snd (main_quote h voice_params
            (cpre @ (category, lpre @ line # lpost) # cpost) url out_dir st0))
            = printed st2 @ [Stdout (Err_failed category (length lpre) e)]
        \<and> (sent (snd (main_quote h voice_params
              (cpre @ (category, lpre @ line # lpost) # cpost) url out_dir st0))
              = sent st2 @ [audio_query_request url line]
            \<or> (\<exists>q. sent (snd (main_quote h voice_params
                   (cpre @ (category, lpre @ line # lpost) # cpost) url out_dir st0))
                  = sent st2 @ [audio_query_request url line, synthesis_request url q])))"
proof (intro conjI impI; elim conjE)
  assume a: "voicevox_prologue h url output_dir st0 = (Inr (), st)"
    "generate_lines h url output_dir pre 0 st = (Inr n, st1)"
    "query_and_render h url None line st1 = (Inl e, st2)" "request_failed e"
  note m = main_voicevox_first_failure [OF a, of filename post]
  note f = query_and_render_frame [OF a(3)]
  show "exit_status (fst (main_voicevox h (pre @ (filename, line) # post) url output_dir st0)) = 4"
    by (simp add: m)
  show "files (snd (main_voicevox h (pre @ (filename, line) # post) url output_dir st0)) = files st1"
    using f by (simp add: m)
  show "printed (snd (main_voicevox h (pre @ (filename, line) # post) url output_dir st0))
      = printed st1 @ [Stderr (Err_failed_to_generate filename e)]"
    using f by (simp add: m)
  show "sent (snd (main_voicevox h (pre @ (filename, line) # post) url output_dir st0))
        = sent st1 @ [audio_query_request url line]
      \<or> (\<exists>q. sent (snd (main_voicevox h (pre @ (filename, line) # post) url output_dir st0))
            = sent st1 @ [audio_query_request url line, synthesis_request url q])"
    using f by (simp add: m)
next
  assume a: "quote_prologue h url out_dir st0 = (Inr (), st)"
    "generate_quotes h voice_params url out_dir cpre [] st = (Inr m1, st1)"
    "generate_category h voice_params url out_dir category 0 lpre (dict_set category [] m1) st1
       = (Inr m2, st2)"
    "query_and_render h url (map_of voice_params category) line st2 = (Inl e, st3)"
    "request_failed e"
  note m = main_quote_first_failure [OF a, of lpost cpost]
  note f = query_and_render_frame [OF a(4)]
  show "exit_status (fst (main_quote h voice_params
            (cpre @ (category, lpre @ line # lpost) # cpost) url out_dir st0)) = 1"
    by (simp add: m exit_status_request_failed [OF a(5)])
  show "files (snd (main_quote h voice_params
            (cpre @ (category, lpre @ line # lpost) # cpost) url out_dir st0)) = files st2"
    using f by (simp add: m)
  show "printed (snd (main_quote h voice_params
            (cpre @ (category, lpre @ line # lpost) # cpost) url out_dir st0))
            = printed st2 @ [Stdout (Err_failed category (length lpre) e)]"
    using f by (simp add: m)
  show "sent (snd (main_quote h voice_params
              (cpre @ (category, lpre @ line # lpost) # cpost) url out_dir st0))
              = sent st2 @ [audio_query_request url line]
            \<or> (\<exists>q. sent (snd (main_quote h voice_params
                   (cpre @ (category, lpre @ line # lpost) # cpost) url out_dir st0))
                  = sent st2 @ [audio_query_request url line, synthesis_request url q])"
    using f by (simp add: m)
qed

lemmas eval_defs = run_defs stub_defs request_defs failing_host_def voicevox_prologue_def
  quote_prologue_def query_and_render_def three_lines_def two_categories_def prod_eq_iff
  str_nat.simps digit_char_def

theorem first_failure_aborts_witness:
  "exit_status (fst (main_voicevox (failing_host 3 (Returns (error_response 500))) three_lines
       ''http://svc'' ''out'' empty_state)) = 4
   \<and> files (snd (main_voicevox (failing_host 3 (Returns (error_response 500))) three_lines
       ''http://svc'' ''out'' empty_state)) (''out'', ''a.wav'') = Some (Audio [82, 73, 70, 70])
   \<and> files (snd (main_voicevox (failing_host 3 (Returns (error_response 500))) three_lines
       ''http://svc'' ''out'' empty_state)) (''out'', ''b.wav'') = None
   \<and> files (snd (main_voicevox (failing_host 3 (Returns (error_response 500))) three_lines
       ''http://svc'' ''out'' empty_state)) (''out'', ''c.wav'') = None
   \<and> exit_status (fst (main_quote (failing_host 5 (Returns (error_response 500))) VOICE_PARAMS
       two_categories ''http://svc'' ''out'' empty_state)) = 1
   \<and> files (snd (main_quote (failing_host 5 (Returns (error_response 500))) VOICE_PARAMS
       two_categories ''http://svc'' ''out'' empty_state)) (''out'', ''A_0.wav'')
       = Some (Audio [82, 73, 70, 70])
   \<and> files (snd (main_quote (failing_host 5 (Returns (error_response 500))) VOICE_PARAMS
       two_categories ''http://svc'' ''out'' empty_state)) (''out'', ''B_0.wav'')
       = Some (Audio [82, 73, 70, 70])
   \<and> files (snd (main_quote (failing_host 5 (Returns (error_response 500))) VOICE_PARAMS
       two_categories ''http://svc'' ''out'' empty_state)) (''out'', ''B_1.wav'') = None"
proof -
  let ?V = "failing_host 3 (Returns (error_response 500))"
  let ?Q = "failing_host 5 (Returns (error_response 500))"
  let ?u = "''http://svc''" and ?o = "''out''"
  let ?v0 = "snd (voicevox_prologue ?V ?u ?o empty_state)"
  let ?v1 = "snd (generate_lines ?V ?u ?o [(''a.wav'', ''one'')] 0 ?v0)"
  let ?v2 = "snd (query_and_render ?V ?u None ''two'' ?v1)"
  have v0: "voicevox_prologue ?V ?u ?o empty_state = (Inr (), ?v0)"
    by (simp add: eval_defs)
  have v1: "generate_lines ?V ?u ?o [(''a.wav'', ''one'')] 0 ?v0 = (Inr 1, ?v1)"
    by (simp add: eval_defs)
  have v2: "query_and_render ?V ?u None ''two'' ?v1 = (Inl (HTTPError 500), ?v2)"
    by (simp add: eval_defs)
  have vf: "files ?v1 (''out'', ''a.wav'') = Some (Audio [82, 73, 70, 70])"
    "files ?v1 (''out'', ''b.wav'') = None" "files ?v1 (''out'', ''c.wav'') = None"
    by (simp_all add: eval_defs)
  have vl: "three_lines = [(''a.wav'', ''one'')] @ (''b.wav'', ''two'') # [(''c.wav'', ''three'')]"
    by (simp add: three_lines_def)
  let ?q0 = "snd (quote_prologue ?Q ?u ?o empty_state)"
  let ?q1 = "snd (generate_quotes ?Q VOICE_PARAMS ?u ?o [(''A'', [''x''])] [] ?q0)"
  let ?m1 = "[(''A'', [''A_0.wav''])]"
  let ?q2 = "snd (generate_category ?Q VOICE_PARAMS ?u ?o ''B'' 0 [''y''] (dict_set ''B'' [] ?m1) ?q1)"
  let ?m2 = "[(''A'', [''A_0.wav'']), (''B'', [''B_0.wav''])]"
  let ?q3 = "snd (query_and_render ?Q ?u (map_of VOICE_PARAMS ''B'') ''z'' ?q2)"
  have q0: "quote_prologue ?Q ?u ?o empty_state = (Inr (), ?q0)"
    by (simp add: eval_defs)
  have q1: "generate_quotes ?Q VOICE_PARAMS ?u ?o [(''A'', [''x''])] [] ?q0 = (Inr ?m1, ?q1)"
    by (simp add: eval_defs VOICE_PARAMS_def)
  have q2: "generate_category ?Q VOICE_PARAMS ?u ?o ''B'' 0 [''y''] (dict_set ''B'' [] ?m1) ?q1
      = (Inr ?m2, ?q2)"
    by (simp add: eval_defs VOICE_PARAMS_def)
  have q3: "query_and_render ?Q ?u (map_of VOICE_PARAMS ''B'') ''z'' ?q2 = (Inl (HTTPError 500), ?q3)"
    by (simp add: eval_defs VOICE_PARAMS_def)
  have qf: "files ?q2 (''out'', ''A_0.wav'') = Some (Audio [82, 73, 70, 70])"
    "files ?q2 (''out'', ''B_0.wav'') = Some (Audio [82, 73, 70, 70])"
    "files ?q2 (''out'', ''B_1.wav'') = None"
    by (simp_all add: eval_defs VOICE_PARAMS_def)
  have ql: "two_categories = [(''A'', [''x''])] @ (''B'', [''y''] @ ''z'' # []) # []"
    by (simp add: two_categories_def)
  have rf: "request_failed (HTTPError 500)"
    by simp
  note T = first_failure_aborts
    [where h = ?V and url = ?u and output_dir = ?o and ?st0.0 = empty_state and st = ?v0
      and pre = "[(''a.wav'', ''one'')]" and n = 1 and ?st1.0 = ?v1 and line = "''two''"
      and e = "HTTPError 500" and ?st2.0 = ?v2 and filename = "''b.wav''"
      and post = "[(''c.wav'', ''three'')]", THEN conjunct1, rule_format, folded vl]
  note U = first_failure_aborts
    [where h = ?Q and url = ?u and out_dir = ?o and ?st0.0 = empty_state and st = ?q0
      and voice_params = VOICE_PARAMS and cpre = "[(''A'', [''x''])]" and ?m1.0 = ?m1
      and ?st1.0 = ?q1 and category = "''B''" and lpre = "[''y'']" and ?m2.0 = ?m2
      and ?st2.0 = ?q2 and line = "''z''" and e = "HTTPError 500" and ?st3.0 = ?q3
      and lpost = "[]" and cpost = "[]", THEN conjunct2, rule_format, folded ql]
  have tv: "exit_status (fst (main_voicevox ?V three_lines ?u ?o empty_state)) = 4"
    "files (snd (main_voicevox ?V three_lines ?u ?o empty_state)) = files ?v1"
    using T v0 v1 v2 rf by blast+
  have tq: "exit_status (fst (main_quote ?Q VOICE_PARAMS two_categories ?u ?o empty_state)) = 1"
    "files (snd (main_quote ?Q VOICE_PARAMS two_categories ?u ?o empty_state)) = files ?q2"
    using U q0 q1 q2 q3 rf by blast+
  show ?thesis
    by (simp only: tv tq vf qf simp_thms)
qed

section \<open>The manifest\<close>

lemma quote_filename_not_manifest: "quote_filename category i \<noteq> ''manifest.json''"
proof
  assume "quote_filename category i = ''manifest.json''"
  then have "last (quote_filename category i) = last ''manifest.json''" by simp
  then show False by (simp add: quote_filename_def)
qed

lemma files_write_file_other:
  "p \<noteq> p' \<Longrightarrow> files (snd (write_file h p' c st)) p = files st p"
  by (simp add: write_file_def)

lemma files_say: "files (snd (say l st)) = files st"
  by (simp add: say_def)

lemma files_mkdir: "files (snd (mkdir h d st)) = files st"
  by (simp add: mkdir_def action_defs)

lemma files_send: "files (snd (send h rq st)) = files st"
  by (simp add: send_def Let_def split: reply.splits)

lemma files_version_check: "files (snd (version_check h url st)) = files st"
  by (auto simp: version_check_def run_defs split: reply.splits exn.splits)

lemma files_quote_prologue: "files (snd (quote_prologue h url out_dir st)) = files st"
  by (auto simp: quote_prologue_def and_then_def mkdir_def ret_def raise_def say_def
      files_version_check split: prod.splits sum.splits)

lemma generate_quote_cases:
  obtains (failed) e st' where
      "generate_quote h voice_params url out_dir category i line manifest st = (Inl e, st')"
      "files st' = files st"
  | (generated) names wav st1 where
      "map_of manifest category = Some names"
      "generate_quote h voice_params url out_dir category i line manifest st =
         (Inr (dict_set category (names @ [quote_filename category i]) manifest),
          st1\<lparr>files := (files st)((out_dir, quote_filename category i) \<mapsto> Audio wav),
              printed := printed st1 @ [Stdout (Generated_quote (quote_filename category i) (length wav))]\<rparr>)"
      "files st1 = files st"
  | (unwritten) e st' where
      "generate_quote h voice_params url out_dir category i line manifest st = (Inl e, st')"
      "\<exists>wav. files st' = (files st)((out_dir, quote_filename category i) \<mapsto> Audio wav)"
proof -
  obtain res st1 where q:
    "query_and_render h url (map_of voice_params category) line st = (res, st1)"
    by (cases "query_and_render h url (map_of voice_params category) line st")
  note f = query_and_render_frame [OF q]
  show thesis
  proof (cases res)
    case (Inl e)
    have "\<exists>st'. generate_quote h voice_params url out_dir category i line manifest st = (Inl e, st')
        \<and> files st' = files st"
      using f
      by (simp add: generate_quote_alt and_then_def try_except_def q Inl say_def raise_def)
    then show thesis using failed by blast
  next
    case (Inr wav)
    show thesis
    proof (cases "can_write h (out_dir, quote_filename category i)")
      case False
      have "generate_quote h voice_params url out_dir category i line manifest st = (Inl OSError, st1)"
        using False
        by (simp add: generate_quote_alt and_then_def try_except_def q Inr write_file_def raise_def)
      then show thesis using failed f by blast
    next
      case True
      show thesis
      proof (cases "map_of manifest category")
        case None
        have "generate_quote h voice_params url out_dir category i line manifest st =
            (Inl KeyError, st1\<lparr>files := (files st1)((out_dir, quote_filename category i) \<mapsto> Audio wav)\<rparr>)"
          using True None
          by (simp add: generate_quote_alt and_then_def try_except_def q Inr write_file_def
              manifest_append_def raise_def)
        then show thesis using unwritten [of KeyError] f by auto
      next
        case (Some names)
        have "generate_quote h voice_params url out_dir category i line manifest st =
            (Inr (dict_set category (names @ [quote_filename category i]) manifest),
             st1\<lparr>files := (files st)((out_dir, quote_filename category i) \<mapsto> Audio wav),
                 printed := printed st1 @
                   [Stdout (Generated_quote (quote_filename category i) (length wav))]\<rparr>)"
          using True Some f
          by (simp add: generate_quote_alt and_then_def try_except_def q Inr write_file_def
              manifest_append_def ret_def say_def)
        then show thesis using generated [OF Some] f by blast
      qed
    qed
  qed
qed

lemma generate_quote_keeps_manifest:
  "files (snd (generate_quote h voice_params url out_dir category i line manifest st))
       (d, ''manifest.json'')
     = files st (d, ''manifest.json'')"
  by (rule generate_quote_cases [of h voice_params url out_dir category i line manifest st])
     (auto simp: quote_filename_not_manifest quote_filename_not_manifest [symmetric])

lemma generate_category_keeps_manifest:
  "files (snd (generate_category h voice_params url out_dir category i ls manifest st))
       (d, ''manifest.json'')
     = files st (d, ''manifest.json'')"
proof (induction ls arbitrary: i manifest st)
  case Nil
  show ?case by (simp add: ret_def)
next
  case (Cons line ls)
  obtain res st1 where g:
    "generate_quote h voice_params url out_dir category i line manifest st = (res, st1)"
    by (cases "generate_quote h voice_params url out_dir category i line manifest st")
  have k: "files st1 (d, ''manifest.json'') = files st (d, ''manifest.json'')"
    using generate_quote_keeps_manifest [of h voice_params url out_dir category i line manifest st d]
    by (simp add: g)
  show ?case
    by (cases res) (simp_all add: and_then_def g k Cons.IH)
qed

lemma generate_quotes_keeps_manifest:
  "files (snd (generate_quotes h voice_params url out_dir QUOTES manifest st))
       (d, ''manifest.json'')
     = files st (d, ''manifest.json'')"
proof (induction QUOTES arbitrary: manifest st)
  case Nil
  show ?case by (simp add: ret_def)
next
  case (Cons entry QUOTES)
  obtain category ls where e: "entry = (category, ls)" by (cases entry)
  obtain res st1 where g:
    "generate_category h voice_params url out_dir category 0 ls (dict_set category [] manifest) st
       = (res, st1)"
    by (cases "generate_category h voice_params url out_dir category 0 ls
                 (dict_set category [] manifest) st")
  have k: "files st1 (d, ''manifest.json'') = files st (d, ''manifest.json'')"
    using generate_category_keeps_manifest
      [of h voice_params url out_dir category 0 ls "dict_set category [] manifest" st d]
    by (simp add: g)
  show ?case
    by (cases res) (simp_all add: e and_then_def g k Cons.IH)
qed

lemma main_quote_cases:
  obtains (aborted) e where
      "fst (main_quote h voice_params QUOTES url out_dir st0) = Inl e"
      "files (snd (main_quote h voice_params QUOTES url out_dir st0)) (out_dir, ''manifest.json'')
         = files st0 (out_dir, ''manifest.json'')"
  | (finished) st st1 m where
      "quote_prologue h url out_dir st0 = (Inr (), st)"
      "generate_quotes h voice_params url out_dir QUOTES [] st = (Inr m, st1)"
      "main_quote h voice_params QUOTES url out_dir st0 =
         (Inr (), st1\<lparr>files := (files st1)((out_dir, ''manifest.json'') \<mapsto> Manifest m),
                      printed := printed st1 @ [Stdout Done]\<rparr>)"
proof -
  let ?p = "(out_dir, ''manifest.json'')"
  obtain r0 st where p: "quote_prologue h url out_dir st0 = (r0, st)"
    by (cases "quote_prologue h url out_dir st0")
  have fp: "files st = files st0"
    using files_quote_prologue [of h url out_dir st0] by (simp add: p)
  show thesis
  proof (cases r0)
    case (Inl e)
    then show thesis
      using aborted [of e] fp by (simp add: main_quote_split and_then_def p)
  next
    case r0: (Inr u)
    obtain r1 st1 where g: "generate_quotes h voice_params url out_dir QUOTES [] st = (r1, st1)"
      by (cases "generate_quotes h voice_params url out_dir QUOTES [] st")
    have fg: "files st1 ?p = files st0 ?p"
      using generate_quotes_keeps_manifest [of h voice_params url out_dir QUOTES "[]" st out_dir]
      by (simp add: g fp)
    show thesis
    proof (cases r1)
      case (Inl e)
      then show thesis
        using aborted [of e] fg by (simp add: main_quote_split and_then_def p r0 g)
    next
      case r1: (Inr m)
      show thesis
      proof (cases "can_write h ?p")
        case False
        then show thesis
          using aborted [of OSError] fg
          by (simp add: main_quote_split and_then_def p r0 g r1 write_file_def)
      next
        case True
        then show thesis
          using finished [of st m st1] p g
          by (simp add: main_quote_split and_then_def r0 r1 write_file_def say_def)
      qed
    qed
  qed
qed

lemma dict_set_new: "k \<notin> fst ` set d \<Longrightarrow> dict_set k v d = d @ [(k, v)]"
  by (induction d) auto

lemma dict_set_last: "k \<notin> fst ` set d \<Longrightarrow> dict_set k v (d @ [(k, w)]) = d @ [(k, v)]"
  by (induction d) auto

lemma map_of_last: "k \<notin> fst ` set d \<Longrightarrow> map_of (d @ [(k, w)]) k = Some w"
  by (induction d) auto

lemma generate_category_manifest:
  assumes "generate_category h voice_params url out_dir category i ls (d @ [(category, names)]) st
      = (Inr m, st')"
    and "category \<notin> fst ` set d"
  shows "m = d @ [(category, names @ map (quote_filename category) [i..<i + length ls])]"
  using assms(1)
proof (induction ls arbitrary: i names st)
  case Nil
  then show ?case by (simp add: ret_def)
next
  case (Cons line ls)
  let ?m = "d @ [(category, names)]"
  show ?case
  proof (rule generate_quote_cases [of h voice_params url out_dir category i line ?m st])
    fix e s
    assume "generate_quote h voice_params url out_dir category i line ?m st = (Inl e, s)"
    with Cons.prems show ?thesis by (simp add: and_then_def)
  next
    fix ns wav s1
    assume n: "map_of ?m category = Some ns"
      and g: "generate_quote h voice_params url out_dir category i line ?m st =
         (Inr (dict_set category (ns @ [quote_filename category i]) ?m),
          s1\<lparr>files := (files st)((out_dir, quote_filename category i) \<mapsto> Audio wav),
              printed := printed s1 @
                [Stdout (Generated_quote (quote_filename category i) (length wav))]\<rparr>)"
    have ns: "ns = names"
      using n unfolding map_of_last [OF assms(2)] by simp
    have "dict_set category (ns @ [quote_filename category i]) ?m
        = d @ [(category, names @ [quote_filename category i])]"
      by (simp add: ns dict_set_last [OF assms(2)])
    with Cons.prems g have "generate_category h voice_params url out_dir category (Suc i) ls
        (d @ [(category, names @ [quote_filename category i])])
        (s1\<lparr>files := (files st)((out_dir, quote_filename category i) \<mapsto> Audio wav),
            printed := printed s1 @
              [Stdout (Generated_quote (quote_filename category i) (length wav))]\<rparr>)
        = (Inr m, st')"
      by (simp add: and_then_def)
    then have m: "m = d @ [(category, (names @ [quote_filename category i])
        @ map (quote_filename category) [Suc i..<Suc i + length ls])]"
      by (rule Cons.IH)
    have "i < i + length (line # ls)" by simp
    then have "[i..<i + length (line # ls)] = i # [Suc i..<i + length (line # ls)]"
      by (rule upt_conv_Cons)
    moreover have "i + length (line # ls) = Suc i + length ls" by simp
    ultimately have u: "[i..<i + length (line # ls)] = i # [Suc i..<Suc i + length ls]"
      by (simp only:)
    show ?thesis
      by (simp only: m u list.map append_assoc append_Cons append_Nil)
  next
    fix e s
    assume "generate_quote h voice_params url out_dir category i line ?m st = (Inl e, s)"
    with Cons.prems show ?thesis by (simp add: and_then_def)
  qed
qed

lemma generate_quotes_manifest:
  assumes "generate_quotes h voice_params url out_dir QUOTES d st = (Inr m, st')"
    and "distinct (map fst QUOTES)"
    and "fst ` set QUOTES \<inter> fst ` set d = {}"
  shows "m = d @ expected_manifest QUOTES"
  using assms
proof (induction QUOTES arbitrary: d st)
  case Nil
  then show ?case by (simp add: ret_def expected_manifest_def)
next
  case (Cons entry QUOTES)
  obtain category ls where e: "entry = (category, ls)" by (cases entry)
  from Cons.prems(3) have new: "category \<notin> fst ` set d"
    by (auto simp: e)
  obtain r1 s1 where c:
    "generate_category h voice_params url out_dir category 0 ls (d @ [(category, [])]) st = (r1, s1)"
    by (cases "generate_category h voice_params url out_dir category 0 ls (d @ [(category, [])]) st")
  show ?case
  proof (cases r1)
    case (Inl x)
    with Cons.prems(1) c show ?thesis
      by (simp add: e and_then_def dict_set_new [OF new])
  next
    case (Inr m1)
    from generate_category_manifest [OF c [unfolded Inr] new]
    have m1: "m1 = d @ [(category, map (quote_filename category) [0..<length ls])]"
      by simp
    have rest: "generate_quotes h voice_params url out_dir QUOTES m1 s1 = (Inr m, st')"
      using Cons.prems(1) c Inr by (simp add: e and_then_def dict_set_new [OF new])
    have d: "distinct (map fst QUOTES)" and n: "category \<notin> fst ` set QUOTES"
      using Cons.prems(2) by (simp_all add: e image_iff)
    have "fst ` set QUOTES \<inter> fst ` set m1 = {}"
      using Cons.prems(3) n by (auto simp: m1 e)
    from Cons.IH [OF rest d this] show ?thesis
      by (simp add: m1 e expected_manifest_def)
  qed
qed

lemma generate_quote_audio:
  assumes "generate_quote h voice_params url out_dir category i line manifest st = (Inr m, st')"
  shows "audio_at st' (out_dir, quote_filename category i) \<and> (\<forall>p. audio_at st p \<longrightarrow> audio_at st' p)"
  by (rule generate_quote_cases [of h voice_params url out_dir category i line manifest st])
     (use assms in \<open>auto simp: audio_at_def\<close>)

lemma generate_category_audio:
  assumes "generate_category h voice_params url out_dir category i ls manifest st = (Inr m, st')"
  shows "(\<forall>j<length ls. audio_at st' (out_dir, quote_filename category (i + j)))
     \<and> (\<forall>p. audio_at st p \<longrightarrow> audio_at st' p)"
  using assms
proof (induction ls arbitrary: i manifest st)
  case Nil
  then show ?case by (simp add: ret_def)
next
  case (Cons line ls)
  obtain r1 s1 where g:
    "generate_quote h voice_params url out_dir category i line manifest st = (r1, s1)"
    by (cases "generate_quote h voice_params url out_dir category i line manifest st")
  show ?case
  proof (cases r1)
    case (Inl e)
    with Cons.prems g show ?thesis by (simp add: and_then_def)
  next
    case (Inr m1)
    note a = generate_quote_audio [OF g [unfolded Inr]]
    have "generate_category h voice_params url out_dir category (Suc i) ls m1 s1 = (Inr m, st')"
      using Cons.prems g Inr by (simp add: and_then_def)
    note b = Cons.IH [OF this]
    show ?thesis
    proof (intro conjI allI impI)
      fix j
      assume "j < length (line # ls)"
      then show "audio_at st' (out_dir, quote_filename category (i + j))"
        using a b by (cases j) auto
    next
      fix p
      assume "audio_at st p"
      then show "audio_at st' p" using a b by blast
    qed
  qed
qed

lemma generate_quotes_audio:
  assumes "generate_quotes h voice_params url out_dir QUOTES manifest st = (Inr m, st')"
  shows "(\<forall>(category, ls) \<in> set QUOTES. \<forall>j<length ls.
            audio_at st' (out_dir, quote_filename category j))
     \<and> (\<forall>p. audio_at st p \<longrightarrow> audio_at st' p)"
  using assms
proof (induction QUOTES arbitrary: manifest st)
  case Nil
  then show ?case by (simp add: ret_def)
next
  case (Cons entry QUOTES)
  obtain category ls where e: "entry = (category, ls)" by (cases entry)
  obtain r1 s1 where c:
    "generate_category h voice_params url out_dir category 0 ls (dict_set category [] manifest) st
       = (r1, s1)"
    by (cases "generate_category h voice_params url out_dir category 0 ls
                 (dict_set category [] manifest) st")
  show ?case
  proof (cases r1)
    case (Inl x)
    with Cons.prems c show ?thesis by (simp add: e and_then_def)
  next
    case (Inr m1)
    note a = generate_category_audio [OF c [unfolded Inr]]
    have "generate_quotes h voice_params url out_dir QUOTES m1 s1 = (Inr m, st')"
      using Cons.prems c Inr by (simp add: e and_then_def)
    note b = Cons.IH [OF this]
    from a b show ?thesis by (auto simp: e)
  qed
qed

text \<open>
  Claim C8.  When \<open>main\<close> of \<open>generate_quote_voices.py\<close> ends without an
  exception, the manifest it has written maps each category, in the order of
  the table, to the names \<open>category_0.wav\<close>, \<open>category_1.wav\<close>, ..., one for
  each line in order, and each of these files is on disk and holds audio.  For
  two categories with one and two lines the manifest has exactly these two
  keys, with one and two names.
\<close>

theorem manifest_lists_generated_files:
  "fst (main_quote h voice_params QUOTES url out_dir st0) = Inr () \<and> distinct (map fst QUOTES)
   \<longrightarrow> files (snd (main_quote h voice_params QUOTES url out_dir st0)) (out_dir, ''manifest.json'')
       = Some (Manifest
           (map (\<lambda>(category, lines).
                   (category, map (\<lambda>i. category @ ''_'' @ str_nat i @ ''.wav'') [0..<length lines]))
              QUOTES))
     \<and> (\<forall>(category, lines) \<in> set QUOTES. \<forall>i<length lines.
           \<exists>wav. files (snd (main_quote h voice_params QUOTES url out_dir st0))
                   (out_dir, category @ ''_'' @ str_nat i @ ''.wav'') = Some (Audio wav))"
proof (intro impI, elim conjE)
  assume ok: "fst (main_quote h voice_params QUOTES url out_dir st0) = Inr ()"
    and d: "distinct (map fst QUOTES)"
  let ?main = "main_quote h voice_params QUOTES url out_dir st0"
  have x: "expected_manifest QUOTES =
      map (\<lambda>(category, lines).
             (category, map (\<lambda>i. category @ ''_'' @ str_nat i @ ''.wav'') [0..<length lines]))
          QUOTES"
    by (simp add: expected_manifest_def quote_filename_def [abs_def])
  show "files (snd ?main) (out_dir, ''manifest.json'')
       = Some (Manifest
           (map (\<lambda>(category, lines).
                   (category, map (\<lambda>i. category @ ''_'' @ str_nat i @ ''.wav'') [0..<length lines]))
              QUOTES))
     \<and> (\<forall>(category, lines) \<in> set QUOTES. \<forall>i<length lines.
           \<exists>wav. files (snd ?main)
                   (out_dir, category @ ''_'' @ str_nat i @ ''.wav'') = Some (Audio wav))"
  proof (rule main_quote_cases [of h voice_params QUOTES url out_dir st0])
    fix e
    assume "fst ?main = Inl e"
    with ok show ?thesis by simp
  next
    fix st st1 m
    assume g: "generate_quotes h voice_params url out_dir QUOTES [] st = (Inr m, st1)"
      and r: "?main =
         (Inr (), st1\<lparr>files := (files st1)((out_dir, ''manifest.json'') \<mapsto> Manifest m),
                      printed := printed st1 @ [Stdout Done]\<rparr>)"
    from generate_quotes_manifest [OF g d] have m: "m = expected_manifest QUOTES" by simp
    have a: "\<forall>(category, ls) \<in> set QUOTES. \<forall>j<length ls.
        audio_at st1 (out_dir, quote_filename category j)"
      using generate_quotes_audio [OF g] by blast
    have "\<exists>wav. files (snd ?main) (out_dir, category @ ''_'' @ str_nat i @ ''.wav'')
        = Some (Audio wav)"
      if "(category, lines) \<in> set QUOTES" "i < length lines" for category lines i
    proof -
      from a that have "audio_at st1 (out_dir, quote_filename category i)" by blast
      then show ?thesis
        using quote_filename_not_manifest [of category i]
        by (simp add: r audio_at_def quote_filename_def)
    qed
    then show ?thesis by (auto simp: r m x)
  qed
qed

theorem manifest_lists_generated_files_witness:
  "fst (main_quote stub_host VOICE_PARAMS two_categories ''http://svc'' ''out'' empty_state) = Inr ()
   \<and> files (snd (main_quote stub_host VOICE_PARAMS two_categories ''http://svc'' ''out'' empty_state))
        (''out'', ''manifest.json'')
      = Some (Manifest [(''A'', [''A_0.wav'']), (''B'', [''B_0.wav'', ''B_1.wav''])])"
proof -
  have ok: "fst (main_quote stub_host VOICE_PARAMS two_categories ''http://svc'' ''out''
      empty_state) = Inr ()"
    by (simp add: eval_defs VOICE_PARAMS_def)
  have d: "distinct (map fst two_categories)"
    by (simp add: two_categories_def)
  have m: "map (\<lambda>(category, lines).
               (category, map (\<lambda>i. category @ ''_'' @ str_nat i @ ''.wav'') [0..<length lines]))
            two_categories
      = [(''A'', [''A_0.wav'']), (''B'', [''B_0.wav'', ''B_1.wav''])]"
    by (simp add: two_categories_def upt_rec str_nat.simps digit_char_def)
  show ?thesis
    using manifest_lists_generated_files
      [of stub_host VOICE_PARAMS two_categories "''http://svc''" "''out''" empty_state] ok d
    by (simp only: m simp_thms)
qed

text \<open>
  Claim C10.  A run of \<open>generate_quote_voices.py\<close> that ends with an
  exception leaves \<open>manifest.json\<close> as it was before the run, and a run that
  ends normally has written it.  When the query or synthesis of an item fails
  after other items were generated, the run ends with that exception,
  \<open>manifest.json\<close> is untouched and the audio files of the earlier items are
  on disk.
\<close>

theorem manifest_only_after_whole_batch:
  "(fst (main_quote h voice_params QUOTES url out_dir st0) = Inl e
    \<longrightarrow> files (snd (main_quote h voice_params QUOTES url out_dir st0)) (out_dir, ''manifest.json'')
        = files st0 (out_dir, ''manifest.json''))
   \<and> (fst (main_quote h voice_params QUOTES url out_dir st0) = Inr ()
    \<longrightarrow> (\<exists>m. files (snd (main_quote h voice_params QUOTES url out_dir st0))
               (out_dir, ''manifest.json'') = Some (Manifest m)))
   \<and> (quote_prologue h url out_dir st0 = (Inr (), st)
      \<and> generate_quotes h voice_params url out_dir cpre [] st = (Inr m1, st1)
      \<and> generate_category h voice_params url out_dir category 0 lpre (dict_set category [] m1) st1
           = (Inr m2, st2)
      \<and> query_and_render h url (map_of voice_params category) line st2 = (Inl x, st3)
      \<and> request_failed x
    \<longrightarrow> fst (main_quote h voice_params (cpre @ (category, lpre @ line # lpost) # cpost) url
               out_dir st0) = Inl x
        \<and> files (snd (main_quote h voice_params (cpre @ (category, lpre @ line # lpost) # cpost) url
               out_dir st0)) (out_dir, ''manifest.json'')
            = files st0 (out_dir, ''manifest.json'')
        \<and> (\<forall>(c, ls) \<in> set cpre. \<forall>j<length ls.
              \<exists>wav. files (snd (main_quote h voice_params
                        (cpre @ (category, lpre @ line # lpost) # cpost) url out_dir st0))
                      (out_dir, c @ ''_'' @ str_nat j @ ''.wav'') = Some (Audio wav))
        \<and> (\<forall>j<length lpre.
              \<exists>wav. files (snd (main_quote h voice_params
                        (cpre @ (category, lpre @ line # lpost) # cpost) url out_dir st0))
                      (out_dir, category @ ''_'' @ str_nat j @ ''.wav'') = Some (Audio wav)))"
proof (intro conjI impI)
  assume "fst (main_quote h voice_params QUOTES url out_dir st0) = Inl e"
  then show "files (snd (main_quote h voice_params QUOTES url out_dir st0))
      (out_dir, ''manifest.json'') = files st0 (out_dir, ''manifest.json'')"
    by (rule_tac main_quote_cases [of h voice_params QUOTES url out_dir st0]) simp_all
next
  assume "fst (main_quote h voice_params QUOTES url out_dir st0) = Inr ()"
  then show "\<exists>m. files (snd (main_quote h voice_params QUOTES url out_dir st0))
      (out_dir, ''manifest.json'') = Some (Manifest m)"
    by (rule_tac main_quote_cases [of h voice_params QUOTES url out_dir st0]) simp_all
next
  let ?T = "cpre @ (category, lpre @ line # lpost) # cpost"
  let ?main = "main_quote h voice_params ?T url out_dir st0"
  assume a: "quote_prologue h url out_dir st0 = (Inr (), st)
      \<and> generate_quotes h voice_params url out_dir cpre [] st = (Inr m1, st1)
      \<and> generate_category h voice_params url out_dir category 0 lpre (dict_set category [] m1) st1
           = (Inr m2, st2)
      \<and> query_and_render h url (map_of voice_params category) line st2 = (Inl x, st3)
      \<and> request_failed x"
  then have a1: "quote_prologue h url out_dir st0 = (Inr (), st)"
    and a2: "generate_quotes h voice_params url out_dir cpre [] st = (Inr m1, st1)"
    and a3: "generate_category h voice_params url out_dir category 0 lpre (dict_set category [] m1)
        st1 = (Inr m2, st2)"
    and a4: "query_and_render h url (map_of voice_params category) line st2 = (Inl x, st3)"
    and a5: "request_failed x"
    by simp_all
  have m: "?main =
      (Inl x, st3\<lparr>printed := printed st3 @ [Stdout (Err_failed category (length lpre) x)]\<rparr>)"
    by (rule main_quote_first_failure [OF a1 a2 a3 a4 a5])
  have f: "files st3 = files st2"
    using query_and_render_frame [OF a4] by blast
  show r: "fst ?main = Inl x"
    by (simp add: m)
  show "files (snd ?main) (out_dir, ''manifest.json'') = files st0 (out_dir, ''manifest.json'')"
    using r by (rule_tac main_quote_cases [of h voice_params ?T url out_dir st0]) simp_all
  have q: "\<forall>(c, ls) \<in> set cpre. \<forall>j<length ls. audio_at st1 (out_dir, quote_filename c j)"
    using generate_quotes_audio [OF a2] by blast
  have c: "(\<forall>j<length lpre. audio_at st2 (out_dir, quote_filename category (0 + j)))
      \<and> (\<forall>p. audio_at st1 p \<longrightarrow> audio_at st2 p)"
    by (rule generate_category_audio [OF a3])
  show "\<forall>(c, ls) \<in> set cpre. \<forall>j<length ls.
      \<exists>wav. files (snd ?main) (out_dir, c @ ''_'' @ str_nat j @ ''.wav'') = Some (Audio wav)"
    using q c by (fastforce simp: m f audio_at_def quote_filename_def)
  show "\<forall>j<length lpre.
      \<exists>wav. files (snd ?main) (out_dir, category @ ''_'' @ str_nat j @ ''.wav'') = Some (Audio wav)"
    using c by (simp add: m f audio_at_def quote_filename_def)
qed

theorem manifest_only_after_whole_batch_witness:
  "fst (main_quote (failing_host 5 (Returns (error_response 500))) VOICE_PARAMS two_categories
          ''http://svc'' ''out'' empty_state) = Inl (HTTPError 500)
   \<and> files (snd (main_quote (failing_host 5 (Returns (error_response 500))) VOICE_PARAMS
          two_categories ''http://svc'' ''out'' empty_state)) (''out'', ''manifest.json'') = None
   \<and> files (snd (main_quote (failing_host 5 (Returns (error_response 500))) VOICE_PARAMS
          two_categories ''http://svc'' ''out'' empty_state)) (''out'', ''A_0.wav'')
       = Some (Audio [82, 73, 70, 70])
   \<and> (\<exists>m. files (snd (main_quote stub_host VOICE_PARAMS two_categories ''http://svc'' ''out''
          empty_state)) (''out'', ''manifest.json'') = Some (Manifest m))"
proof -
  let ?Q = "failing_host 5 (Returns (error_response 500))"
  have bad: "fst (main_quote ?Q VOICE_PARAMS two_categories ''http://svc'' ''out'' empty_state)
      = Inl (HTTPError 500)"
    by (simp add: eval_defs VOICE_PARAMS_def)
  have audio: "files (snd (main_quote ?Q VOICE_PARAMS two_categories ''http://svc'' ''out''
      empty_state)) (''out'', ''A_0.wav'') = Some (Audio [82, 73, 70, 70])"
    by (simp add: eval_defs VOICE_PARAMS_def)
  have ok: "fst (main_quote stub_host VOICE_PARAMS two_categories ''http://svc'' ''out''
      empty_state) = Inr ()"
    by (simp add: eval_defs VOICE_PARAMS_def)
  have none: "files empty_state (''out'', ''manifest.json'') = None"
    by (simp add: empty_state_def)
  note A = manifest_only_after_whole_batch
    [where h = ?Q and voice_params = VOICE_PARAMS and QUOTES = two_categories
      and url = "''http://svc''" and out_dir = "''out''" and ?st0.0 = empty_state
      and e = "HTTPError 500", THEN conjunct1, rule_format, OF bad]
  note B = manifest_only_after_whole_batch
    [where h = stub_host and voice_params = VOICE_PARAMS and QUOTES = two_categories
      and url = "''http://svc''" and out_dir = "''out''" and ?st0.0 = empty_state,
      THEN conjunct2, THEN conjunct1, rule_format, OF ok]
  show ?thesis
    using A B bad audio none by simp
qed

section \<open>Failures of the two requests\<close>

lemma audio_query_Raises:
  "http h (sent st) (audio_query_request url line) = Raises e \<Longrightarrow>
   fst (audio_query h url line st) = Inl e"
  by (simp add: audio_query_def and_then_def send_def)

lemma audio_query_error_status:
  "http h (sent st) (audio_query_request url line) = Returns r \<Longrightarrow>
   is_error_status (status_code r) \<Longrightarrow>
   fst (audio_query h url line st) = Inl (HTTPError (status_code r))"
  by (simp add: audio_query_def and_then_def send_def raise_for_status_def raise_def)

lemma synthesis_Raises:
  "http h (sent st) (synthesis_request url q) = Raises e \<Longrightarrow>
   fst (synthesis h url q st) = Inl e"
  by (simp add: synthesis_def and_then_def send_def)

lemma synthesis_error_status:
  "http h (sent st) (synthesis_request url q) = Returns r \<Longrightarrow>
   is_error_status (status_code r) \<Longrightarrow>
   fst (synthesis h url q st) = Inl (HTTPError (status_code r))"
  by (simp add: synthesis_def and_then_def send_def raise_for_status_def raise_def)

lemma audio_query_Inr:
  "fst (audio_query h url line st) = Inr j \<Longrightarrow>
   \<exists>r. http h (sent st) (audio_query_request url line) = Returns r
     \<and> \<not> is_error_status (status_code r) \<and> json_value r = Some j"
  by (cases "http h (sent st) (audio_query_request url line)")
     (auto simp: audio_query_def and_then_def send_def raise_for_status_def raise_def ret_def
        json_of_def Let_def split: if_splits option.splits)

lemma synthesis_Inr:
  "fst (synthesis h url q st) = Inr wav \<Longrightarrow>
   \<exists>r. http h (sent st) (synthesis_request url q) = Returns r
     \<and> \<not> is_error_status (status_code r) \<and> wav = content r"
  by (cases "http h (sent st) (synthesis_request url q)")
     (auto simp: synthesis_def and_then_def send_def raise_for_status_def raise_def ret_def
        Let_def split: if_splits)

lemma generate_wav_query_Raises:
  "http h (sent st) (update_query_request voice_data) = Raises e \<Longrightarrow>
   fst (generate_wav h voice_data st) = Inl e"
  by (simp add: generate_wav_def and_then_def send_def)

lemma generate_wav_synthesis_Raises:
  assumes "http h (sent st) (update_query_request voice_data) = Returns r"
    and "json_value r = Some (JObj q)"
    and "http h (sent st @ [update_query_request voice_data])
           (update_synthesis_request voice_data (JObj (tuned voice_data q))) = Raises e"
  shows "fst (generate_wav h voice_data st) = Inl e"
  using assms
  by (simp add: generate_wav_def and_then_def send_def json_of_def ret_def setitem_def tuned_def)

lemma generate_wav_any_status:
  assumes "http h (sent st) (update_query_request voice_data) = Returns r"
    and "json_value r = Some (JObj q)"
    and "http h (sent st @ [update_query_request voice_data])
           (update_synthesis_request voice_data (JObj (tuned voice_data q))) = Returns r2"
    and "can_write h (''.'', voice_filename voice_data)"
  shows "fst (generate_wav h voice_data st) = Inr ()
     \<and> files (snd (generate_wav h voice_data st)) (''.'', voice_filename voice_data)
         = Some (Audio (content r2))"
  using assms
  by (simp add: generate_wav_def and_then_def send_def json_of_def ret_def setitem_def tuned_def
      write_file_def say_def)

text \<open>
  Claim C7, as amended.  In the two scripts under \<open>scripts/\<close> the
  audio-query step and the synthesis step raise the exception of the request
  when the request fails (a connection error or a timeout among them), and
  raise \<open>HTTPError\<close> when the answer has a status from 400 to 599; a value
  they return comes from an answer whose status is outside that range.  In
  \<open>update_voices.py\<close> an exception of either request propagates.
\<close>

theorem request_failures_raise:
  "(http h (sent st) (audio_query_request url line) = Raises e
      \<longrightarrow> fst (audio_query h url line st) = Inl e)
   \<and> (http h (sent st) (audio_query_request url line) = Returns r
        \<and> 400 \<le> status_code r \<and> status_code r < 600
      \<longrightarrow> fst (audio_query h url line st) = Inl (HTTPError (status_code r)))
   \<and> (http h (sent st) (synthesis_request url query) = Raises e
      \<longrightarrow> fst (synthesis h url query st) = Inl e)
   \<and> (http h (sent st) (synthesis_request url query) = Returns r
        \<and> 400 \<le> status_code r \<and> status_code r < 600
      \<longrightarrow> fst (synthesis h url query st) = Inl (HTTPError (status_code r)))
   \<and> (fst (audio_query h url line st) = Inr j
      \<longrightarrow> (\<exists>r. http h (sent st) (audio_query_request url line) = Returns r
             \<and> \<not> (400 \<le> status_code r \<and> status_code r < 600) \<and> json_value r = Some j))
   \<and> (fst (synthesis h url query st) = Inr wav
      \<longrightarrow> (\<exists>r. http h (sent st) (synthesis_request url query) = Returns r
             \<and> \<not> (400 \<le> status_code r \<and> status_code r < 600) \<and> wav = content r))
   \<and> (http h (sent st) (update_query_request voice_data) = Raises e
      \<longrightarrow> fst (generate_wav h voice_data st) = Inl e)
   \<and> (http h (sent st) (update_query_request voice_data) = Returns r
        \<and> json_value r = Some (JObj q)
        \<and> http h (sent st @ [update_query_request voice_data])
             (update_synthesis_request voice_data (JObj (tuned voice_data q))) = Raises e
      \<longrightarrow> fst (generate_wav h voice_data st) = Inl e)"
  using audio_query_Raises [of h st url line e] audio_query_error_status [of h st url line r]
    synthesis_Raises [of h st url query e] synthesis_error_status [of h st url query r]
    audio_query_Inr [of h url line st j] synthesis_Inr [of h url query st wav]
    generate_wav_query_Raises [of h st voice_data e]
    generate_wav_synthesis_Raises [of h st voice_data r q e]
  unfolding is_error_status_def by blast

theorem request_failures_raise_witness:
  "fst (audio_query (failing_host 0 (Raises Timeout)) ''http://svc'' ''hi'' empty_state) = Inl Timeout
   \<and> fst (audio_query (failing_host 0 (Returns (error_response 500))) ''http://svc'' ''hi''
          empty_state) = Inl (HTTPError 500)
   \<and> fst (synthesis (failing_host 0 (Raises ConnectionError)) ''http://svc'' stub_query
          empty_state) = Inl ConnectionError
   \<and> fst (synthesis (failing_host 0 (Returns (error_response 404))) ''http://svc'' stub_query
          empty_state) = Inl (HTTPError 404)
   \<and> fst (generate_wav (failing_host 0 (Raises ConnectionError)) safe_tile_1 empty_state)
       = Inl ConnectionError
   \<and> fst (generate_wav (failing_host 1 (Raises Timeout)) safe_tile_1 empty_state) = Inl Timeout"
proof -
  let ?u = "''http://svc''"
  have e: "sent empty_state = []"
    by (simp add: empty_state_def)
  have f: "http (failing_host 0 a) (sent empty_state) rq = a" for a rq
    by (simp add: failing_host_def e)
  have g: "http (failing_host 1 a) (sent empty_state) rq = Returns stub_response"
    "http (failing_host 1 a) (sent empty_state @ [rq']) rq = a" for a rq rq'
    by (simp_all add: failing_host_def e)
  have j: "json_value stub_response = Some (JObj stub_fields)"
    by (simp add: stub_response_def stub_query_def)
  have c: "400 \<le> status_code (error_response 500) \<and> status_code (error_response 500) < 600"
    "400 \<le> status_code (error_response 404) \<and> status_code (error_response 404) < 600"
    by (simp_all add: error_response_def)
  have c': "status_code (error_response 500) = 500" "status_code (error_response 404) = 404"
    by (simp_all add: error_response_def)
  note T = request_failures_raise [where st = empty_state and url = ?u and line = "''hi''"
      and query = stub_query and voice_data = safe_tile_1]
  note T1 = T [THEN conjunct1, rule_format]
  note T2 = T [THEN conjunct2, THEN conjunct1, rule_format]
  note T3 = T [THEN conjunct2, THEN conjunct2, THEN conjunct1, rule_format]
  note T4 = T [THEN conjunct2, THEN conjunct2, THEN conjunct2, THEN conjunct1, rule_format]
  note T7 = T [THEN conjunct2, THEN conjunct2, THEN conjunct2, THEN conjunct2, THEN conjunct2,
      THEN conjunct2, THEN conjunct1, rule_format]
  note T8 = T [THEN conjunct2, THEN conjunct2, THEN conjunct2, THEN conjunct2, THEN conjunct2,
      THEN conjunct2, THEN conjunct2, rule_format]
  have 1: "fst (audio_query (failing_host 0 (Raises Timeout)) ?u ''hi'' empty_state) = Inl Timeout"
    by (rule T1) (rule f)
  have 2: "fst (audio_query (failing_host 0 (Returns (error_response 500))) ?u ''hi''
      empty_state) = Inl (HTTPError 500)"
    using T2 [where h = "failing_host 0 (Returns (error_response 500))"
        and r = "error_response 500", OF conjI [OF f c(1)]]
    by (simp only: c')
  have 3: "fst (synthesis (failing_host 0 (Raises ConnectionError)) ?u stub_query
      empty_state) = Inl ConnectionError"
    by (rule T3) (rule f)
  have 4: "fst (synthesis (failing_host 0 (Returns (error_response 404))) ?u stub_query
      empty_state) = Inl (HTTPError 404)"
    using T4 [where h = "failing_host 0 (Returns (error_response 404))"
        and r = "error_response 404", OF conjI [OF f c(2)]]
    by (simp only: c')
  have 5: "fst (generate_wav (failing_host 0 (Raises ConnectionError)) safe_tile_1
      empty_state) = Inl ConnectionError"
    by (rule T7) (rule f)
  have 6: "fst (generate_wav (failing_host 1 (Raises Timeout)) safe_tile_1 empty_state)
      = Inl Timeout"
    by (rule T8 [where r = stub_response and q = stub_fields]) (intro conjI g j)
  show ?thesis
    using 1 2 3 4 5 6 by (simp only: simp_thms)
qed

text \<open>
  An answer with status 300 is not a success, and \<open>raise_for_status\<close> lets it
  pass: the synthesis step of the scripts returns its body.  In
  \<open>update_voices.py\<close> the synthesis step is answered with status 500 and the
  body of that answer is written to the audio file.
\<close>

theorem error_body_written_counterexample:
  "fst (synthesis (failing_host 0 (Returns (error_response 300))) ''http://svc'' stub_query
          empty_state) = Inr (content (error_response 300))
   \<and> http (failing_host 1 (Returns (error_response 500))) [update_query_request safe_tile_1]
       (update_synthesis_request safe_tile_1 (JObj (tuned safe_tile_1 stub_fields)))
     = Returns (error_response 500)
   \<and> status_code (error_response 500) = 500
   \<and> fst (generate_wav (failing_host 1 (Returns (error_response 500))) safe_tile_1 empty_state)
       = Inr ()
   \<and> files (snd (generate_wav (failing_host 1 (Returns (error_response 500))) safe_tile_1
          empty_state)) (''.'', ''SAFE_TILE_1.wav'')
       = Some (Audio (content (error_response 500)))"
proof -
  let ?H = "failing_host 1 (Returns (error_response 500))"
  have a: "http ?H [update_query_request safe_tile_1]
       (update_synthesis_request safe_tile_1 (JObj (tuned safe_tile_1 stub_fields)))
     = Returns (error_response 500)"
    by (simp add: failing_host_def)
  have b: "status_code (error_response 500) = 500"
    by (simp add: error_response_def)
  have q: "http ?H (sent empty_state) (update_query_request safe_tile_1) = Returns stub_response"
    by (simp add: failing_host_def empty_state_def)
  have j: "json_value stub_response = Some (JObj stub_fields)"
    by (simp add: stub_response_def stub_query_def)
  have s: "http ?H (sent empty_state @ [update_query_request safe_tile_1])
       (update_synthesis_request safe_tile_1 (JObj (tuned safe_tile_1 stub_fields)))
     = Returns (error_response 500)"
    by (simp add: failing_host_def empty_state_def)
  have w: "can_write ?H (''.'', voice_filename safe_tile_1)"
    by (simp add: failing_host_def)
  have n: "voice_filename safe_tile_1 = ''SAFE_TILE_1.wav''"
    by (simp add: safe_tile_1_def)
  have c: "fst (synthesis (failing_host 0 (Returns (error_response 300))) ''http://svc''
      stub_query empty_state) = Inr (content (error_response 300))"
    by (simp add: synthesis_def and_then_def send_def raise_for_status_def is_error_status_def
        ret_def failing_host_def empty_state_def error_response_def)
  show ?thesis
    using a b c generate_wav_any_status [OF q j s w] by (simp only: n simp_thms)
qed

section \<open>Timeouts\<close>

lemma emitsI:
  assumes "\<And>st. \<exists>new. sent (snd (m st)) = sent st @ new \<and> list_all P new"
  shows "emits P m"
  using assms by (simp add: emits_def)

lemma emits_silent:
  assumes "\<And>st. sent (snd (m st)) = sent st"
  shows "emits P m"
  by (rule emitsI) (simp add: assms)

lemma emits_ret: "emits P (ret x)"
  by (rule emits_silent) (simp add: ret_def)

lemma emits_raise: "emits P (raise e)"
  by (rule emits_silent) (simp add: raise_def)

lemma emits_say: "emits P (say l)"
  by (rule emits_silent) (simp add: say_def)

lemma emits_mkdir: "emits P (mkdir h d)"
  by (rule emits_silent) (simp add: mkdir_def ret_def raise_def)

lemma emits_write_file: "emits P (write_file h p c)"
  by (rule emits_silent) (simp add: write_file_def)

lemma emits_send: "P rq \<Longrightarrow> emits P (send h rq)"
  by (rule emitsI) (simp add: sent_send)

lemma emits_and_then:
  assumes "emits P m" and "\<And>x. emits P (f x)"
  shows "emits P (and_then m f)"
proof (rule emitsI)
  fix st
  obtain r st1 where m: "m st = (r, st1)" by (cases "m st")
  from assms(1) obtain n1 where n1: "sent st1 = sent st @ n1" "list_all P n1"
    unfolding emits_def using m by (metis snd_conv)
  show "\<exists>new. sent (snd (and_then m f st)) = sent st @ new \<and> list_all P new"
  proof (cases r)
    case (Inl e)
    then show ?thesis using n1 by (auto simp: and_then_def m)
  next
    case (Inr x)
    from assms(2) [of x] obtain n2 where "sent (snd (f x st1)) = sent st1 @ n2" "list_all P n2"
      unfolding emits_def by blast
    then have "sent (snd (and_then m f st)) = sent st @ (n1 @ n2)" "list_all P (n1 @ n2)"
      using n1 by (simp_all add: and_then_def m Inr)
    then show ?thesis by blast
  qed
qed

lemma emits_try_except:
  assumes "emits P m" and "\<And>e. emits P (handler e)"
  shows "emits P (try_except m handler)"
proof (rule emitsI)
  fix st
  obtain r st1 where m: "m st = (r, st1)" by (cases "m st")
  from assms(1) obtain n1 where n1: "sent st1 = sent st @ n1" "list_all P n1"
    unfolding emits_def using m by (metis snd_conv)
  show "\<exists>new. sent (snd (try_except m handler st)) = sent st @ new \<and> list_all P new"
  proof (cases r)
    case (Inr x)
    then show ?thesis using n1 by (auto simp: try_except_def m)
  next
    case (Inl e)
    from assms(2) [of e] obtain n2 where
      "sent (snd (handler e st1)) = sent st1 @ n2" "list_all P n2"
      unfolding emits_def by blast
    then have "sent (snd (try_except m handler st)) = sent st @ (n1 @ n2)" "list_all P (n1 @ n2)"
      using n1 by (simp_all add: try_except_def m Inl)
    then show ?thesis by blast
  qed
qed

lemma emits_raise_for_status: "emits P (raise_for_status r)"
  by (simp add: raise_for_status_def emits_ret emits_raise)

lemma emits_json_of: "emits P (json_of r)"
  by (simp add: json_of_def emits_ret emits_raise split: option.splits)

lemma emits_apply_tuning: "emits P (apply_tuning t q)"
  by (simp add: apply_tuning_def emits_ret emits_raise split: option.splits json.splits)

lemma emits_manifest_append: "emits P (manifest_append m c f)"
  by (simp add: manifest_append_def emits_ret emits_raise split: option.splits)

lemma emits_setitem: "emits P (setitem k v q)"
  by (simp add: setitem_def emits_ret emits_raise split: json.splits)

lemmas emits_intros = emits_and_then emits_try_except emits_ret emits_raise emits_say emits_mkdir
  emits_write_file emits_raise_for_status emits_json_of emits_apply_tuning emits_manifest_append
  emits_setitem

lemma timed_requests:
  "timed_request (speakers_request url) url (speakers_request url)"
  "timed_request (version_request url) url (version_request url)"
  "timed_request check url (audio_query_request url line)"
  "timed_request check url (synthesis_request url query)"
  by (auto simp: timed_request_def request_defs)

lemma emits_audio_query: "emits (timed_request check url) (audio_query h url line)"
  unfolding audio_query_def by (intro emits_intros emits_send timed_requests)

lemma emits_synthesis: "emits (timed_request check url) (synthesis h url query)"
  unfolding synthesis_def by (intro emits_intros emits_send timed_requests)

lemma emits_healthcheck: "emits (timed_request (speakers_request url) url) (healthcheck h url)"
  unfolding healthcheck_def check_voicevox_def
  by (intro emits_intros emits_send timed_requests)
     (auto intro!: emits_intros split: exn.splits)

lemma emits_version_check: "emits (timed_request (version_request url) url) (version_check h url)"
  unfolding version_check_def
  by (intro emits_intros emits_send timed_requests)
     (auto intro!: emits_intros split: exn.splits)

lemma emits_generate_line: "emits (timed_request check url) (generate_line h url output_dir entry)"
  unfolding generate_line_def
  by (cases entry) (auto intro!: emits_intros emits_audio_query emits_synthesis)

lemma emits_generate_lines:
  "emits (timed_request check url) (generate_lines h url output_dir LINES generated)"
  by (induction LINES arbitrary: generated)
     (auto intro!: emits_intros emits_generate_line)

lemma emits_main_voicevox: "emits (timed_request (speakers_request url) url) (main_voicevox h LINES url output_dir)"
  unfolding main_voicevox_def
  by (intro emits_intros emits_healthcheck emits_generate_lines)

lemma emits_generate_quote:
  "emits (timed_request check url) (generate_quote h voice_params url out_dir category i line manifest)"
  unfolding generate_quote_def Let_def
  by (auto intro!: emits_intros emits_audio_query emits_synthesis)

lemma emits_generate_category:
  "emits (timed_request check url) (generate_category h voice_params url out_dir category i ls manifest)"
  by (induction ls arbitrary: i manifest)
     (auto intro!: emits_intros emits_generate_quote)

lemma emits_generate_quotes:
  "emits (timed_request check url) (generate_quotes h voice_params url out_dir QUOTES manifest)"
  by (induction QUOTES arbitrary: manifest)
     (auto intro!: emits_intros emits_generate_category)

lemma emits_main_quote: "emits (timed_request (version_request url) url) (main_quote h voice_params QUOTES url out_dir)"
  unfolding main_quote_def
  by (intro emits_intros emits_version_check emits_generate_quotes)

lemma emits_generate_wav: "emits (\<lambda>rq. timeout rq = None) (generate_wav h voice_data)"
  unfolding generate_wav_def
  by (intro emits_intros emits_send) (simp_all add: request_defs)

lemma emits_update_voices: "emits (\<lambda>rq. timeout rq = None) (update_voices h voices)"
  by (induction voices) (auto intro!: emits_intros emits_generate_wav)

text \<open>
  Claim C9, as amended.  Every request that \<open>main\<close> of
  \<open>generate_voicevox_voices.py\<close> sends is the health check with a timeout of
  10 seconds, an audio query with a timeout of 30 seconds or a synthesis with
  a timeout of 60 seconds; the same holds of \<open>generate_quote_voices.py\<close>
  with its version check.
\<close>

theorem http_requests_carry_timeouts:
  "(\<exists>new. sent (snd (main_voicevox h LINES url output_dir st)) = sent st @ new
       \<and> list_all (\<lambda>rq. rq = speakers_request url \<and> timeout rq = Some 10
                       \<or> (\<exists>line. rq = audio_query_request url line) \<and> timeout rq = Some 30
                       \<or> (\<exists>query. rq = synthesis_request url query) \<and> timeout rq = Some 60) new)
   \<and> (\<exists>new. sent (snd (main_quote h voice_params QUOTES url output_dir st)) = sent st @ new
       \<and> list_all (\<lambda>rq. rq = version_request url \<and> timeout rq = Some 10
                       \<or> (\<exists>line. rq = audio_query_request url line) \<and> timeout rq = Some 30
                       \<or> (\<exists>query. rq = synthesis_request url query) \<and> timeout rq = Some 60) new)"
  using emits_main_voicevox [of url h LINES output_dir]
    emits_main_quote [of url h voice_params QUOTES output_dir]
  unfolding emits_def timed_request_def by blast

theorem http_requests_carry_timeouts_witness:
  "map timeout (sent (snd (main_voicevox stub_host three_lines ''http://svc'' ''out'' empty_state)))
     = [Some 10, Some 30, Some 60, Some 30, Some 60, Some 30, Some 60]
   \<and> list_all (\<lambda>rq. timeout rq = Some 10 \<or> timeout rq = Some 30 \<or> timeout rq = Some 60)
        (sent (snd (main_voicevox stub_host three_lines ''http://svc'' ''out'' empty_state)))
   \<and> map timeout (sent (snd (main_quote stub_host VOICE_PARAMS two_categories ''http://svc'' ''out''
        empty_state)))
     = [Some 10, Some 30, Some 60, Some 30, Some 60, Some 30, Some 60]"
proof -
  have e: "sent empty_state = []"
    by (simp add: empty_state_def)
  note T = http_requests_carry_timeouts [of stub_host three_lines "''http://svc''" "''out''"
      empty_state VOICE_PARAMS two_categories]
  from T obtain new where
    "sent (snd (main_voicevox stub_host three_lines ''http://svc'' ''out'' empty_state)) = new"
    "list_all (\<lambda>rq. rq = speakers_request ''http://svc'' \<and> timeout rq = Some 10
        \<or> (\<exists>line. rq = audio_query_request ''http://svc'' line) \<and> timeout rq = Some 30
        \<or> (\<exists>query. rq = synthesis_request ''http://svc'' query) \<and> timeout rq = Some 60) new"
    unfolding e by auto
  then have a: "list_all (\<lambda>rq. timeout rq = Some 10 \<or> timeout rq = Some 30 \<or> timeout rq = Some 60)
      (sent (snd (main_voicevox stub_host three_lines ''http://svc'' ''out'' empty_state)))"
    by (auto simp: list_all_iff)
  have c: "map timeout
      (sent (snd (main_voicevox stub_host three_lines ''http://svc'' ''out'' empty_state)))
     = [Some 10, Some 30, Some 60, Some 30, Some 60, Some 30, Some 60]"
    by (simp add: eval_defs)
  have d: "map timeout (sent (snd (main_quote stub_host VOICE_PARAMS two_categories ''http://svc''
      ''out'' empty_state)))
     = [Some 10, Some 30, Some 60, Some 30, Some 60, Some 30, Some 60]"
    by (simp add: eval_defs VOICE_PARAMS_def)
  show ?thesis
    using a c d by blast
qed

text \<open>The two requests of \<open>update_voices.py\<close> are sent without a timeout.\<close>

theorem requests_without_timeout_counterexample:
  "map timeout (sent (snd (update_voices stub_host [safe_tile_1] empty_state))) = [None, None]"
  by (simp add: eval_defs tuned_def safe_tile_1_def)

end

